theory Spec2Isabelle
  imports Complex_Main "HOL-Library.AList"
begin

section \<open>Values exchanged with the collaborators\<close>

text \<open>
  The model covers \<open>scripts/backfill_data.py\<close>: the class \<open>YahooDataCollector\<close> with its
  methods \<open>get_league_players\<close>, \<open>get_player_stats_by_date\<close>, \<open>save_game_log\<close>,
  \<open>get_existing_dates\<close>, \<open>backfill_player\<close> and \<open>backfill_season\<close>.

  An exception raised by a collaborator is a value of type \<open>exn\<close>; it stands for instances
  of Python's \<open>Exception\<close>. Asynchronous interrupts are not part of the model.
\<close>

datatype exn = ValueError | TypeError | AttributeError | OtherError string

text \<open>
  A Python \<open>float\<close> is a rational number, an infinity or a NaN. Rounding happens in the
  conversion from text, which is a function of the runtime (see \<open>py_float\<close> below).
\<close>

datatype pyfloat = Finite rat | PosInf | NegInf | NaN

datatype num = IntV int | FloatV pyfloat

text \<open>The comparison \<open>v > 0\<close> on a coerced value.\<close>

fun num_pos :: "num \<Rightarrow> bool" where
  "num_pos (IntV i) = (0 < i)"
| "num_pos (FloatV (Finite q)) = (0 < q)"
| "num_pos (FloatV PosInf) = True"
| "num_pos (FloatV NegInf) = False"
| "num_pos (FloatV NaN) = False"

text \<open>
  \<open>stat.stat.value\<close>: a \<open>str\<close>, or an object of another type, on which \<open>'.' in value\<close> or
  the conversion raises \<open>TypeError\<close>.
\<close>

datatype raw = Str string | NonStr

text \<open>
  An element of \<open>stats.player_stats.stats\<close>: without the attribute \<open>stat\<close>; with one
  that carries \<open>str(stat_id)\<close> and \<open>value\<close>; or with one on which reading \<open>stat_id\<close> or
  \<open>value\<close> raises \<open>AttributeError\<close>.
\<close>

datatype stat_entry = NoStat | Stat string raw | BadStat

text \<open>
  What \<open>yahoo.get_player_stats_by_date\<close> returns: a falsy object, an object without the
  attribute \<open>player_stats\<close>, or one with it; \<open>player_stats\<close> has the attribute \<open>stats\<close>
  (\<open>Some\<close>) or not (\<open>None\<close>).
\<close>

datatype stats_obj = Falsy | NoPlayerStats | PlayerStats "stat_entry list option"

datatype team_attr = NoTeamAttr | TeamNoValue | TeamValue string

record yahoo_player =
  yp_player_key :: string
  yp_name_full :: string
  yp_editorial_team_abbr :: team_attr
  yp_eligible_positions :: "string list option"

record player =
  player_key :: string
  player_name :: string
  team :: string
  positions :: "string list"

record game_log =
  date :: string
  stats :: "(string \<times> num) list"
  minutes_played :: "num option"
  has_game :: bool

text \<open>The dictionary \<open>data\<close> that \<open>save_game_log\<close> upserts.\<close>

record row =
  row_player_key :: string
  row_player_name :: string
  row_game_date :: string
  row_stats :: "(string \<times> num) list"
  row_minutes_played :: "num option"
  row_opponent :: "string option"
  row_home_away :: "string option"
  row_game_result :: "string option"

text \<open>The dictionary \<open>stats\<close> that \<open>backfill_player\<close> returns.\<close>

record batch_stats =
  bs_player_key :: string
  bs_player_name :: string
  total_dates :: int
  existing_games :: int
  new_games :: int
  api_calls :: int
  errors :: int

text \<open>The dictionary \<open>total_stats\<close> of \<open>backfill_season\<close>.\<close>

record season_totals =
  total_players :: int
  processed_players :: int
  total_new_games :: int
  total_api_calls :: int
  total_errors :: int

text \<open>
  A \<open>datetime\<close>: the ordinal of its calendar day and the time of day in microseconds.
  Comparison is lexicographic.
\<close>

record datetime =
  ordinal :: int
  tod :: nat

definition dt_le :: "datetime \<Rightarrow> datetime \<Rightarrow> bool" where
  "dt_le a b = (ordinal a < ordinal b \<or> (ordinal a = ordinal b \<and> tod a \<le> tod b))"

definition dt_less :: "datetime \<Rightarrow> datetime \<Rightarrow> bool" where
  "dt_less a b = (ordinal a < ordinal b \<or> (ordinal a = ordinal b \<and> tod a < tod b))"

section \<open>Effects\<close>

text \<open>One constructor for each \<open>print\<close> statement, with the values it interpolates.\<close>

datatype message =
    MsgFetchingPlayers
  | MsgFoundPlayers nat
  | MsgPlayersFailed exn
  | MsgSaveFailed string string exn
  | MsgQueryFailed exn
  | MsgInvalidSeason string
  | MsgRule
  | MsgSeasonStart string
  | MsgDateRange string string
  | MsgNoPlayers
  | MsgLimit int
  | MsgPlayerHeader nat nat string string
  | MsgDashes
  | MsgExisting int
  | MsgNew int
  | MsgApiCalls int
  | MsgErrors int
  | MsgDone
  | MsgProcessed int int
  | MsgTotalNew int
  | MsgTotalApiCalls int
  | MsgTotalErrors int

text \<open>
  Every call to a collaborator, every \<open>print\<close> and every \<open>time.sleep\<close> appends an event
  to the trace of the run. \<open>Sleep\<close> carries the delay in milliseconds.
\<close>

datatype event =
    YahooPlayerStats string string
  | YahooLeagueInfo
  | YahooLeaguePlayers
  | SupabaseSelect string
  | SupabaseUpsert row
  | Print message
  | Sleep nat

text \<open>
  The world outside the script. A collaborator answers a call as a function of the trace
  so far, so its answers may change during a run; \<open>Inl\<close> is a raised exception. The
  conversions \<open>int\<close>, \<open>float\<close>, \<open>datetime.strptime(_, '%Y-%m-%d')\<close> and
  \<open>strftime('%Y-%m-%d')\<close> of the runtime are pure; \<open>None\<close> is their \<open>ValueError\<close>.
\<close>

record world =
  py_int :: "string \<Rightarrow> int option"
  py_float :: "string \<Rightarrow> pyfloat option"
  strptime :: "string \<Rightarrow> int option"
  strftime :: "int \<Rightarrow> string"
  datetime_now :: "event list \<Rightarrow> datetime"
  yahoo_get_player_stats_by_date :: "event list \<Rightarrow> string \<Rightarrow> string \<Rightarrow> exn + stats_obj"
  yahoo_get_league_info :: "event list \<Rightarrow> exn + unit"
  yahoo_get_league_players :: "event list \<Rightarrow> exn + yahoo_player list"
  supabase_select :: "event list \<Rightarrow> string \<Rightarrow> exn + string list"
  supabase_upsert :: "event list \<Rightarrow> row \<Rightarrow> exn + unit"

section \<open>The season table\<close>

definition SEASONS :: "(string \<times> string \<times> string) list" where
  "SEASONS =
     [(''2025-26'', (''2025-10-21'', ''2026-06-30'')),
      (''2024-25'', (''2024-10-22'', ''2025-06-17'')),
      (''2023-24'', (''2023-10-24'', ''2024-06-17''))]"

section \<open>get_league_players\<close>

definition player_of :: "yahoo_player \<Rightarrow> player" where
  "player_of p =
     \<lparr>player_key = yp_player_key p,
      player_name = yp_name_full p,
      team = (case yp_editorial_team_abbr p of
                NoTeamAttr \<Rightarrow> ''UNK'' | TeamNoValue \<Rightarrow> ''UNK'' | TeamValue v \<Rightarrow> v),
      positions = (case yp_eligible_positions p of None \<Rightarrow> [] | Some ps \<Rightarrow> ps)\<rparr>"

definition get_league_players :: "world \<Rightarrow> event list \<Rightarrow> player list \<times> event list" where
  "get_league_players w t =
     (let t0 = t @ [Print MsgFetchingPlayers] in
      case yahoo_get_league_info w t0 of
        Inl e \<Rightarrow> ([], t0 @ [YahooLeagueInfo, Print (MsgPlayersFailed e)])
      | Inr league \<Rightarrow>
          (let t1 = t0 @ [YahooLeagueInfo] in
           case yahoo_get_league_players w t1 of
             Inl e \<Rightarrow> ([], t1 @ [YahooLeaguePlayers, Print (MsgPlayersFailed e)])
           | Inr players \<Rightarrow>
               (let player_list = map player_of players in
                (player_list,
                 t1 @ [YahooLeaguePlayers, Print (MsgFoundPlayers (length player_list))]))))"

section \<open>get_player_stats_by_date\<close>

text \<open>
  The inner \<open>try\<close>: \<open>float(value)\<close> if \<open>'.' in value\<close>, else \<open>int(value)\<close>. \<open>None\<close> is a
  \<open>ValueError\<close> or \<open>TypeError\<close>, which the handler catches.
\<close>

definition coerce :: "world \<Rightarrow> raw \<Rightarrow> num option" where
  "coerce w v =
     (case v of
        NonStr \<Rightarrow> None
      | Str s \<Rightarrow>
          (if CHR ''.'' \<in> set s
           then (case py_float w s of None \<Rightarrow> None | Some f \<Rightarrow> Some (FloatV f))
           else (case py_int w s of None \<Rightarrow> None | Some i \<Rightarrow> Some (IntV i))))"

text \<open>
  The loop over \<open>stats.player_stats.stats\<close>. The dictionary \<open>stats_dict\<close> is an association
  list in insertion order; an assignment to a key already present replaces its value in
  place. The reads of \<open>stat.stat.stat_id\<close> and \<open>stat.stat.value\<close> stand before the inner
  \<open>try\<close>: when one of them raises, the loop is left with that exception.
\<close>

primrec parse_stats ::
  "world \<Rightarrow> stat_entry list \<Rightarrow> (string \<times> num) list \<Rightarrow> exn + (string \<times> num) list" where
  "parse_stats w [] stats_dict = Inr stats_dict"
| "parse_stats w (x # xs) stats_dict =
     (case x of
        NoStat \<Rightarrow> parse_stats w xs stats_dict
      | BadStat \<Rightarrow> Inl AttributeError
      | Stat stat_id v \<Rightarrow>
          (case coerce w v of
             None \<Rightarrow> parse_stats w xs stats_dict
           | Some n \<Rightarrow> parse_stats w xs (AList.update stat_id n stats_dict)))"

definition stats_dict_of ::
  "world \<Rightarrow> stat_entry list option \<Rightarrow> exn + (string \<times> num) list" where
  "stats_dict_of w ps =
     (case ps of None \<Rightarrow> Inr [] | Some entries \<Rightarrow> parse_stats w entries [])"

text \<open>The body of the outer \<open>try\<close>, after the remote call has been logged.\<close>

definition get_player_stats_by_date_try ::
  "world \<Rightarrow> string \<Rightarrow> string \<Rightarrow> event list \<Rightarrow> exn + game_log option" where
  "get_player_stats_by_date_try w pk d t =
     (case yahoo_get_player_stats_by_date w t pk d of
        Inl e \<Rightarrow> Inl e
      | Inr Falsy \<Rightarrow> Inr None
      | Inr NoPlayerStats \<Rightarrow> Inr None
      | Inr (PlayerStats ps) \<Rightarrow>
          (case stats_dict_of w ps of
             Inl e \<Rightarrow> Inl e
           | Inr stats_dict \<Rightarrow>
               (let has_game' = list_ex num_pos (map snd stats_dict)
                in if \<not> has_game' then Inr None
                   else Inr (Some \<lparr>date = d,
                                    stats = stats_dict,
                                    minutes_played = map_of stats_dict ''3'',
                                    has_game = True\<rparr>))))"

text \<open>The handler \<open>except Exception: return None\<close> turns every exception into \<open>None\<close>.\<close>

definition get_player_stats_by_date ::
  "world \<Rightarrow> string \<Rightarrow> string \<Rightarrow> event list \<Rightarrow> game_log option \<times> event list" where
  "get_player_stats_by_date w pk d t =
     (case get_player_stats_by_date_try w pk d t of
        Inl e \<Rightarrow> (None, t @ [YahooPlayerStats pk d])
      | Inr r \<Rightarrow> (r, t @ [YahooPlayerStats pk d]))"

section \<open>save_game_log and get_existing_dates\<close>

definition save_game_log ::
  "world \<Rightarrow> string \<Rightarrow> string \<Rightarrow> game_log \<Rightarrow> event list \<Rightarrow> bool \<times> event list" where
  "save_game_log w pk pn g t =
     (let data = \<lparr>row_player_key = pk,
                  row_player_name = pn,
                  row_game_date = date g,
                  row_stats = stats g,
                  row_minutes_played = minutes_played g,
                  row_opponent = None,
                  row_home_away = None,
                  row_game_result = None\<rparr>
      in case supabase_upsert w t data of
           Inr result \<Rightarrow> (True, t @ [SupabaseUpsert data])
         | Inl e \<Rightarrow> (False, t @ [SupabaseUpsert data, Print (MsgSaveFailed pk (date g) e)]))"

definition get_existing_dates :: "world \<Rightarrow> string \<Rightarrow> event list \<Rightarrow> string set \<times> event list" where
  "get_existing_dates w pk t =
     (case supabase_select w t pk of
        Inr rows \<Rightarrow> (set rows, t @ [SupabaseSelect pk])
      | Inl e \<Rightarrow> ({}, t @ [SupabaseSelect pk, Print (MsgQueryFailed e)]))"

section \<open>backfill_player\<close>

text \<open>
  The loop \<open>while current <= end\<close>: it appends \<open>current.strftime('%Y-%m-%d')\<close> and moves
  \<open>current\<close> one day on.
\<close>

function date_loop :: "world \<Rightarrow> datetime \<Rightarrow> datetime \<Rightarrow> string list \<Rightarrow> string list" where
  "date_loop w current end_dt dates =
     (if dt_le current end_dt
      then date_loop w (current\<lparr>ordinal := ordinal current + 1\<rparr>) end_dt
             (dates @ [strftime w (ordinal current)])
      else dates)"
  by pat_completeness auto
termination
  by (relation "measure (\<lambda>(w, c, e, ds). nat (ordinal e - ordinal c + 1))")
     (auto simp: dt_le_def)

text \<open>One iteration of \<open>for date in dates\<close>.\<close>

definition backfill_step ::
  "world \<Rightarrow> string \<Rightarrow> string \<Rightarrow> string \<Rightarrow> batch_stats \<times> event list \<Rightarrow> batch_stats \<times> event list" where
  "backfill_step w pk pn d st =
     (case st of (s, t) \<Rightarrow>
        (case get_player_stats_by_date w pk d t of (g, t1) \<Rightarrow>
           (let s1 = s\<lparr>api_calls := api_calls s + 1\<rparr> in
            case g of
              None \<Rightarrow> (s1, t1 @ [Sleep 200])
            | Some gl \<Rightarrow>
                (case save_game_log w pk pn gl t1 of (ok, t2) \<Rightarrow>
                   if ok then (s1\<lparr>new_games := new_games s1 + 1\<rparr>, t2 @ [Sleep 200])
                   else (s1\<lparr>errors := errors s1 + 1\<rparr>, t2 @ [Sleep 200])))))"

primrec backfill_loop ::
  "world \<Rightarrow> string \<Rightarrow> string \<Rightarrow> string list \<Rightarrow> batch_stats \<times> event list \<Rightarrow> batch_stats \<times> event list" where
  "backfill_loop w pk pn [] st = st"
| "backfill_loop w pk pn (d # ds) st = backfill_loop w pk pn ds (backfill_step w pk pn d st)"

text \<open>The list \<open>dates\<close> before the filter: from \<open>start\<close> to \<open>end\<close>, clamped to now.\<close>

definition generated_dates :: "world \<Rightarrow> int \<Rightarrow> int \<Rightarrow> datetime \<Rightarrow> string list" where
  "generated_dates w s e today =
     (let start = \<lparr>ordinal = s, tod = 0\<rparr>;
          end0 = \<lparr>ordinal = e, tod = 0\<rparr>;
          end_dt = (if dt_less today end0 then today else end0)
      in date_loop w start end_dt [])"

definition backfill_player ::
  "world \<Rightarrow> string \<Rightarrow> string \<Rightarrow> string \<Rightarrow> string \<Rightarrow> bool \<Rightarrow> event list
     \<Rightarrow> (exn + batch_stats) \<times> event list" where
  "backfill_player w pk pn start_date end_date skip_existing t =
     (case strptime w start_date of
        None \<Rightarrow> (Inl ValueError, t)
      | Some s \<Rightarrow>
     (case strptime w end_date of
        None \<Rightarrow> (Inl ValueError, t)
      | Some e \<Rightarrow>
     (let dates0 = generated_dates w s e (datetime_now w t) in
      case (if skip_existing then get_existing_dates w pk t else ({}, t)) of
        (existing_dates, t1) \<Rightarrow>
     (let dates = (if skip_existing then filter (\<lambda>d. d \<notin> existing_dates) dates0 else dates0);
          s0 = \<lparr>bs_player_key = pk,
                bs_player_name = pn,
                total_dates = int (length dates),
                existing_games = int (card existing_dates),
                new_games = 0,
                api_calls = 0,
                errors = 0\<rparr>
      in if length dates = 0 then (Inr s0, t1)
         else (case backfill_loop w pk pn dates (s0, t1) of (s1, t2) \<Rightarrow> (Inr s1, t2))))))"

section \<open>backfill_season\<close>

text \<open>The slice \<open>players[:n]\<close>; a negative \<open>n\<close> counts from the end.\<close>

definition py_slice_to :: "'a list \<Rightarrow> int \<Rightarrow> 'a list" where
  "py_slice_to xs n =
     (if 0 \<le> n then take (nat n) xs else take (nat (int (length xs) + n)) xs)"

text \<open>One iteration of \<open>for i, player in enumerate(players, 1)\<close>.\<close>

definition season_step ::
  "world \<Rightarrow> string \<times> string \<Rightarrow> nat \<Rightarrow> nat \<Rightarrow> player \<Rightarrow> season_totals \<Rightarrow> event list
     \<Rightarrow> (exn + season_totals) \<times> event list" where
  "season_step w season_info n i p total_stats t =
     (let t1 = t @ [Print (MsgPlayerHeader i n (player_name p) (player_key p)), Print MsgDashes] in
      case backfill_player w (player_key p) (player_name p)
             (fst season_info) (snd season_info) True t1 of
        (Inl e, t2) \<Rightarrow> (Inl e, t2)
      | (Inr s, t2) \<Rightarrow>
          (Inr (total_stats\<lparr>processed_players := processed_players total_stats + 1,
                      total_new_games := total_new_games total_stats + new_games s,
                      total_api_calls := total_api_calls total_stats + api_calls s,
                      total_errors := total_errors total_stats + errors s\<rparr>),
           t2 @ [Print (MsgExisting (existing_games s)),
                 Print (MsgNew (new_games s)),
                 Print (MsgApiCalls (api_calls s))]
              @ (if errors s > 0 then [Print (MsgErrors (errors s))] else [])))"

primrec season_loop ::
  "world \<Rightarrow> string \<times> string \<Rightarrow> nat \<Rightarrow> nat \<Rightarrow> player list \<Rightarrow> season_totals \<Rightarrow> event list
     \<Rightarrow> (exn + season_totals) \<times> event list" where
  "season_loop w season_info n i [] total_stats t = (Inr total_stats, t)"
| "season_loop w season_info n i (p # ps) total_stats t =
     (case season_step w season_info n i p total_stats t of
        (Inl e, t') \<Rightarrow> (Inl e, t')
      | (Inr total_stats', t') \<Rightarrow> season_loop w season_info n (Suc i) ps total_stats' t')"

definition final_report :: "season_totals \<Rightarrow> event list" where
  "final_report total_stats =
     [Print MsgRule, Print MsgDone, Print MsgRule,
      Print (MsgProcessed (processed_players total_stats) (total_players total_stats)),
      Print (MsgTotalNew (total_new_games total_stats)),
      Print (MsgTotalApiCalls (total_api_calls total_stats)),
      Print (MsgTotalErrors (total_errors total_stats)),
      Print MsgRule]"

definition backfill_season ::
  "world \<Rightarrow> string \<Rightarrow> int option \<Rightarrow> event list \<Rightarrow> (exn + unit) \<times> event list" where
  "backfill_season w season_key max_players t =
     (case map_of SEASONS season_key of
        None \<Rightarrow> (Inr (), t @ [Print (MsgInvalidSeason season_key)])
      | Some season_info \<Rightarrow>
     (let t1 = t @ [Print MsgRule, Print (MsgSeasonStart season_key),
                    Print (MsgDateRange (fst season_info) (snd season_info)), Print MsgRule] in
      case get_league_players w t1 of (players0, t2) \<Rightarrow>
        if players0 = [] then (Inr (), t2 @ [Print MsgNoPlayers])
        else
     (case (case max_players of
              None \<Rightarrow> (players0, t2)
            | Some m \<Rightarrow> if m \<noteq> 0 then (py_slice_to players0 m, t2 @ [Print (MsgLimit m)])
                        else (players0, t2)) of
        (players, t3) \<Rightarrow>
     (let total_stats0 = \<lparr>total_players = int (length players),
                         processed_players = 0,
                         total_new_games = 0,
                         total_api_calls = 0,
                         total_errors = 0\<rparr>
      in case season_loop w season_info (length players) 1 players total_stats0 t3 of
           (Inl e, t4) \<Rightarrow> (Inl e, t4)
         | (Inr total_stats, t4) \<Rightarrow> (Inr (), t4 @ final_report total_stats)))))"

section \<open>Observations on a trace\<close>

text \<open>
  The remote stats calls of a trace as (player key, date) pairs, the rows handed to the
  store, the number of roster calls, and the number of upserts that the store answered
  with an exception (\<open>h\<close> is the trace before the events looked at).
\<close>

fun fetch_calls :: "event list \<Rightarrow> (string \<times> string) list" where
  "fetch_calls [] = []"
| "fetch_calls (YahooPlayerStats k d # es) = (k, d) # fetch_calls es"
| "fetch_calls (x # es) = fetch_calls es"

fun upsert_calls :: "event list \<Rightarrow> row list" where
  "upsert_calls [] = []"
| "upsert_calls (SupabaseUpsert r # es) = r # upsert_calls es"
| "upsert_calls (x # es) = upsert_calls es"

fun roster_calls :: "event list \<Rightarrow> nat" where
  "roster_calls [] = 0"
| "roster_calls (YahooLeagueInfo # es) = Suc (roster_calls es)"
| "roster_calls (YahooLeaguePlayers # es) = Suc (roster_calls es)"
| "roster_calls (x # es) = roster_calls es"

fun failed_upserts :: "world \<Rightarrow> event list \<Rightarrow> event list \<Rightarrow> nat" where
  "failed_upserts w h [] = 0"
| "failed_upserts w h (SupabaseUpsert r # es) =
     (case supabase_upsert w h r of Inl e \<Rightarrow> 1 | Inr u \<Rightarrow> 0)
       + failed_upserts w (h @ [SupabaseUpsert r]) es"
| "failed_upserts w h (x # es) = failed_upserts w (h @ [x]) es"

text \<open>
  The BatchStats that the calls of \<open>backfill_player\<close> in the loop of \<open>backfill_season\<close>
  return, in the order of the players; the arguments are those of \<open>season_loop\<close>.
\<close>

primrec season_runs ::
  "world \<Rightarrow> string \<times> string \<Rightarrow> nat \<Rightarrow> nat \<Rightarrow> player list \<Rightarrow> season_totals \<Rightarrow> event list
     \<Rightarrow> batch_stats list" where
  "season_runs w season_info n i [] total_stats t = []"
| "season_runs w season_info n i (p # ps) total_stats t =
     (case backfill_player w (player_key p) (player_name p)
             (fst season_info) (snd season_info) True
             (t @ [Print (MsgPlayerHeader i n (player_name p) (player_key p)), Print MsgDashes]) of
        (Inl e, t2) \<Rightarrow> []
      | (Inr s, t2) \<Rightarrow>
          s # (case season_step w season_info n i p total_stats t of
                 (Inl e, t') \<Rightarrow> []
               | (Inr total_stats', t') \<Rightarrow>
                   season_runs w season_info n (Suc i) ps total_stats' t'))"

section \<open>A concrete world\<close>

text \<open>
  The end-to-end scenario: player \<open>nba.p.123\<close>, the window 2024-10-22 to 2024-10-24, a
  game on 2024-10-22, a failing call for 2024-10-23 and zeros only on 2024-10-24; it is
  noon of 2024-10-24, the store is empty and accepts every row. The conversions are
  tables of the values of Python's \<open>int\<close>, \<open>float\<close>, \<open>strptime\<close> and \<open>strftime\<close> at the
  strings and days that occur; 739181 is the ordinal of 2024-10-22.
\<close>

definition scenario :: world where
  "scenario =
     \<lparr>py_int = (\<lambda>s. if s = ''34'' then Some 34 else if s = ''10'' then Some 10
                    else if s = ''8'' then Some 8 else if s = ''0'' then Some 0 else None),
      py_float = (\<lambda>s. if s = ''12.5'' then Some (Finite (25 / 2))
                      else if s = ''0.0'' then Some (Finite 0) else None),
      strptime = (\<lambda>s. if s = ''2024-10-22'' then Some 739181
                      else if s = ''2024-10-24'' then Some 739183
                      else if s = ''2025-06-17'' then Some 739419 else None),
      strftime = (\<lambda>n. if n = 739181 then ''2024-10-22''
                      else if n = 739182 then ''2024-10-23''
                      else if n = 739183 then ''2024-10-24'' else []),
      datetime_now = (\<lambda>t. \<lparr>ordinal = 739183, tod = 43200000000\<rparr>),
      yahoo_get_player_stats_by_date =
        (\<lambda>t k d.
           if d = ''2024-10-22''
           then Inr (PlayerStats (Some [Stat ''3'' (Str ''34''), Stat ''9'' (Str ''DNP''),
                                        Stat ''12'' (Str ''10''), Stat ''5'' (Str ''12.5''),
                                        NoStat, Stat ''7'' (Str ''8'')]))
           else if d = ''2024-10-24''
           then Inr (PlayerStats (Some [Stat ''3'' (Str ''0''), Stat ''5'' (Str ''0.0'')]))
           else Inl (OtherError ''no data'')),
      yahoo_get_league_info = (\<lambda>t. Inr ()),
      yahoo_get_league_players =
        (\<lambda>t. Inr [\<lparr>yp_player_key = ''nba.p.123'', yp_name_full = ''Player One'',
                    yp_editorial_team_abbr = TeamValue ''LAL'',
                    yp_eligible_positions = Some [''PG'']\<rparr>]),
      supabase_select = (\<lambda>t k. Inr []),
      supabase_upsert = (\<lambda>t r. Inr ())\<rparr>"

text \<open>The same world on a second run: the row of 2024-10-22 is in the store.\<close>

definition scenario_rerun :: world where
  "scenario_rerun = scenario\<lparr>supabase_select := (\<lambda>t k. Inr [''2024-10-22''])\<rparr>"

text \<open>The same world with a store that holds rows of an earlier season as well.\<close>

definition scenario_history :: world where
  "scenario_history =
     scenario\<lparr>supabase_select := (\<lambda>t k. Inr [''2023-11-01'', ''2023-11-03'', ''2024-10-22''])\<rparr>"

text \<open>The same world with a payload whose second entry cannot be read.\<close>

definition scenario_malformed :: world where
  "scenario_malformed =
     scenario\<lparr>yahoo_get_player_stats_by_date :=
                (\<lambda>t k d. Inr (PlayerStats (Some [Stat ''3'' (Str ''34''), BadStat,
                                                Stat ''7'' (Str ''8'')])))\<rparr>"

text \<open>The same world with a store that fails on every call.\<close>

definition scenario_store_down :: world where
  "scenario_store_down =
     scenario\<lparr>supabase_select := (\<lambda>t k. Inl (OtherError ''connection refused'')),
              supabase_upsert := (\<lambda>t r. Inl (OtherError ''connection refused''))\<rparr>"

declare date_loop.simps [simp del]

section \<open>Lemmas about the observations\<close>

lemma fetch_calls_append: "fetch_calls (a @ b) = fetch_calls a @ fetch_calls b"
  by (induction a rule: fetch_calls.induct) auto

lemma upsert_calls_append: "upsert_calls (a @ b) = upsert_calls a @ upsert_calls b"
  by (induction a rule: upsert_calls.induct) auto

lemma roster_calls_append: "roster_calls (a @ b) = roster_calls a + roster_calls b"
  by (induction a rule: roster_calls.induct) auto

lemma failed_upserts_append:
  "failed_upserts w h (a @ b) = failed_upserts w h a + failed_upserts w (h @ a) b"
  by (induction w h a rule: failed_upserts.induct) auto

section \<open>The date range\<close>

lemma dt_le_midnight: "tod c = 0 \<Longrightarrow> dt_le c e = (ordinal c \<le> ordinal e)"
  by (auto simp: dt_le_def)

lemma date_loop_upto:
  "tod c = 0 \<Longrightarrow> date_loop w c e acc = acc @ map (strftime w) [ordinal c..ordinal e]"
proof (induction w c e acc rule: date_loop.induct)
  case (1 w current end_dt dates)
  show ?case
  proof (cases "ordinal current \<le> ordinal end_dt")
    case True
    then have le: "dt_le current end_dt" using 1(2) by (simp add: dt_le_midnight)
    have "date_loop w current end_dt dates =
            date_loop w (current\<lparr>ordinal := ordinal current + 1\<rparr>) end_dt
              (dates @ [strftime w (ordinal current)])"
      using le by (subst date_loop.simps) simp
    also have "\<dots> = (dates @ [strftime w (ordinal current)])
                       @ map (strftime w) [ordinal current + 1..ordinal end_dt]"
      using 1(1)[OF le] 1(2) by simp
    also have "\<dots> = dates @ map (strftime w) [ordinal current..ordinal end_dt]"
      using True by (simp add: upto_rec1)
    finally show ?thesis .
  next
    case False
    then have "\<not> dt_le current end_dt" using 1(2) by (simp add: dt_le_midnight)
    then show ?thesis using False by (subst date_loop.simps) simp
  qed
qed

lemma generated_dates_upto:
  "generated_dates w s e today = map (strftime w) [s..min e (ordinal today)]"
proof (cases "dt_less today \<lparr>ordinal = e, tod = 0\<rparr>")
  case True
  then have "ordinal today < e" by (auto simp: dt_less_def)
  then show ?thesis using True
    by (simp add: generated_dates_def Let_def date_loop_upto min_def)
next
  case False
  then have "e \<le> ordinal today" by (auto simp: dt_less_def)
  then show ?thesis using False
    by (simp add: generated_dates_def Let_def date_loop_upto min_def)
qed

section \<open>The loop over the dates\<close>

lemma fetcher_trace: "snd (get_player_stats_by_date w pk d t) = t @ [YahooPlayerStats pk d]"
  by (simp add: get_player_stats_by_date_def split: sum.splits)

lemma save_game_log_trace:
  assumes "save_game_log w pk pn g t = (ok, t2)"
  shows "\<exists>es. t2 = t @ es \<and> fetch_calls es = [] \<and> length (upsert_calls es) = 1
            \<and> failed_upserts w t es = (if ok then 0 else 1) \<and> roster_calls es = 0"
  using assms by (auto simp: save_game_log_def Let_def split: sum.splits)

lemma backfill_step_effect:
  assumes "backfill_step w pk pn d (s, t) = (s', t')"
  shows "\<exists>es. t' = t @ es \<and> fetch_calls es = [(pk, d)]
            \<and> roster_calls es = 0
            \<and> length (upsert_calls es) \<le> 1
            \<and> api_calls s' = api_calls s + 1
            \<and> new_games s' = new_games s + int (length (upsert_calls es)) - int (failed_upserts w t es)
            \<and> errors s' = errors s + int (failed_upserts w t es)
            \<and> failed_upserts w t es \<le> length (upsert_calls es)
            \<and> total_dates s' = total_dates s
            \<and> existing_games s' = existing_games s
            \<and> bs_player_key s' = bs_player_key s
            \<and> bs_player_name s' = bs_player_name s"
proof -
  obtain g t1 where f: "get_player_stats_by_date w pk d t = (g, t1)"
    by (cases "get_player_stats_by_date w pk d t")
  then have t1: "t1 = t @ [YahooPlayerStats pk d]"
    using fetcher_trace[of w pk d t] by simp
  show ?thesis
  proof (cases g)
    case None
    then have "s' = s\<lparr>api_calls := api_calls s + 1\<rparr>" "t' = t @ [YahooPlayerStats pk d, Sleep 200]"
      using assms f t1 by (simp_all add: backfill_step_def)
    then show ?thesis by simp
  next
    case (Some gl)
    obtain ok t2 where sv: "save_game_log w pk pn gl t1 = (ok, t2)"
      by (cases "save_game_log w pk pn gl t1")
    from save_game_log_trace[OF sv] obtain es where
      es: "t2 = t1 @ es" "fetch_calls es = []" "length (upsert_calls es) = 1"
          "failed_upserts w t1 es = (if ok then 0 else 1)" "roster_calls es = 0"
      by blast
    let ?es = "[YahooPlayerStats pk d] @ es @ [Sleep 200]"
    have t': "t' = t @ ?es"
      using assms f Some sv es(1) t1 by (auto simp: backfill_step_def Let_def split: if_splits)
    have s': "s' = (if ok then s\<lparr>api_calls := api_calls s + 1, new_games := new_games s + 1\<rparr>
                    else s\<lparr>api_calls := api_calls s + 1, errors := errors s + 1\<rparr>)"
      using assms f Some sv by (auto simp: backfill_step_def Let_def split: if_splits)
    have fu: "failed_upserts w t ?es = (if ok then 0 else 1)"
      using es(4) t1 by (simp add: failed_upserts_append)
    have uc: "length (upsert_calls ?es) = 1"
      using es(3) by (simp add: upsert_calls_append)
    have fc: "fetch_calls ?es = [(pk, d)]"
      using es(2) by (simp add: fetch_calls_append)
    have rc: "roster_calls ?es = 0"
      using es(5) by (simp add: roster_calls_append)
    show ?thesis
      apply (rule exI[of _ ?es])
      unfolding fu uc fc rc
      using t' s' by simp
  qed
qed

lemma backfill_loop_effect:
  "backfill_loop w pk pn ds (s, t) = (s', t') \<Longrightarrow>
     \<exists>es. t' = t @ es \<and> fetch_calls es = map (Pair pk) ds
            \<and> roster_calls es = 0
            \<and> length (upsert_calls es) \<le> length ds
            \<and> api_calls s' = api_calls s + int (length ds)
            \<and> new_games s' = new_games s + int (length (upsert_calls es)) - int (failed_upserts w t es)
            \<and> errors s' = errors s + int (failed_upserts w t es)
            \<and> failed_upserts w t es \<le> length (upsert_calls es)
            \<and> total_dates s' = total_dates s
            \<and> existing_games s' = existing_games s
            \<and> bs_player_key s' = bs_player_key s
            \<and> bs_player_name s' = bs_player_name s"
proof (induction ds arbitrary: s t)
  case Nil
  then show ?case by simp
next
  case (Cons d ds)
  obtain s1 t1 where st: "backfill_step w pk pn d (s, t) = (s1, t1)"
    by (cases "backfill_step w pk pn d (s, t)")
  from backfill_step_effect[OF st] obtain es1 where
    e1: "t1 = t @ es1" "fetch_calls es1 = [(pk, d)]" "roster_calls es1 = 0"
        "length (upsert_calls es1) \<le> 1" "api_calls s1 = api_calls s + 1"
        "new_games s1 = new_games s + int (length (upsert_calls es1)) - int (failed_upserts w t es1)"
        "errors s1 = errors s + int (failed_upserts w t es1)"
        "failed_upserts w t es1 \<le> length (upsert_calls es1)"
        "total_dates s1 = total_dates s" "existing_games s1 = existing_games s"
        "bs_player_key s1 = bs_player_key s" "bs_player_name s1 = bs_player_name s"
    by blast
  have "backfill_loop w pk pn ds (s1, t1) = (s', t')"
    using Cons.prems st by simp
  from Cons.IH[OF this] obtain es2 where
    e2: "t' = t1 @ es2" "fetch_calls es2 = map (Pair pk) ds" "roster_calls es2 = 0"
        "length (upsert_calls es2) \<le> length ds" "api_calls s' = api_calls s1 + int (length ds)"
        "new_games s' = new_games s1 + int (length (upsert_calls es2)) - int (failed_upserts w t1 es2)"
        "errors s' = errors s1 + int (failed_upserts w t1 es2)"
        "failed_upserts w t1 es2 \<le> length (upsert_calls es2)"
        "total_dates s' = total_dates s1" "existing_games s' = existing_games s1"
        "bs_player_key s' = bs_player_key s1" "bs_player_name s' = bs_player_name s1"
    by blast
  have fu: "failed_upserts w t (es1 @ es2) = failed_upserts w t es1 + failed_upserts w t1 es2"
    using e1(1) by (simp add: failed_upserts_append)
  show ?case
    apply (rule exI[of _ "es1 @ es2"])
    unfolding fu fetch_calls_append upsert_calls_append roster_calls_append
    using e1 e2 by simp
qed

section \<open>A run of backfill_player\<close>

lemma get_existing_dates_trace:
  "\<exists>es. snd (get_existing_dates w pk t) = t @ es \<and> fetch_calls es = [] \<and> upsert_calls es = []
          \<and> roster_calls es = 0 \<and> failed_upserts w t es = 0"
  by (auto simp: get_existing_dates_def split: sum.splits)

lemma backfill_player_effect:
  assumes sd: "strptime w start_date = Some s" and ed: "strptime w end_date = Some e"
    and E: "E = (if skip then fst (get_existing_dates w pk t) else {})"
    and D: "dates = filter (\<lambda>d. d \<notin> E) (generated_dates w s e (datetime_now w t))"
  shows "\<exists>st es. backfill_player w pk pn start_date end_date skip t = (Inr st, t @ es)
            \<and> fetch_calls es = map (Pair pk) dates
            \<and> roster_calls es = 0
            \<and> length (upsert_calls es) \<le> length dates
            \<and> failed_upserts w t es \<le> length (upsert_calls es)
            \<and> total_dates st = int (length dates)
            \<and> existing_games st = int (card E)
            \<and> api_calls st = int (length dates)
            \<and> new_games st = int (length (upsert_calls es)) - int (failed_upserts w t es)
            \<and> errors st = int (failed_upserts w t es)
            \<and> bs_player_key st = pk \<and> bs_player_name st = pn"
proof -
  define ex where "ex = (if skip then get_existing_dates w pk t else ({}, t))"
  have exE: "fst ex = E" by (simp add: ex_def E)
  obtain es0 where es0: "snd ex = t @ es0" "fetch_calls es0 = []" "upsert_calls es0 = []"
      "roster_calls es0 = 0" "failed_upserts w t es0 = 0"
  proof (cases skip)
    case True
    then show ?thesis using get_existing_dates_trace[of w pk t] that by (auto simp: ex_def)
  next
    case False
    then show ?thesis using that[of "[]"] by (simp add: ex_def)
  qed
  have dates': "(if skip then filter (\<lambda>d. d \<notin> E) (generated_dates w s e (datetime_now w t))
                 else generated_dates w s e (datetime_now w t)) = dates"
    using D E by simp
  define s0 where "s0 = \<lparr>bs_player_key = pk, bs_player_name = pn,
      total_dates = int (length dates), existing_games = int (card E),
      new_games = 0, api_calls = 0, errors = 0\<rparr>"
  have bp: "backfill_player w pk pn start_date end_date skip t =
          (if length dates = 0 then (Inr s0, snd ex)
           else (case backfill_loop w pk pn dates (s0, snd ex) of (s1, t2) \<Rightarrow> (Inr s1, t2)))"
    using dates' exE
    by (cases ex) (simp add: backfill_player_def sd ed Let_def ex_def[symmetric] s0_def)
  show ?thesis
  proof (cases "dates = []")
    case True
    then have "backfill_player w pk pn start_date end_date skip t = (Inr s0, t @ es0)"
      using bp es0(1) by simp
    then show ?thesis using True es0 by (simp add: s0_def)
  next
    case False
    obtain s1 t2 where lp: "backfill_loop w pk pn dates (s0, snd ex) = (s1, t2)"
      by (cases "backfill_loop w pk pn dates (s0, snd ex)")
    from backfill_loop_effect[OF lp] obtain es where
      es: "t2 = snd ex @ es" "fetch_calls es = map (Pair pk) dates" "roster_calls es = 0"
        "length (upsert_calls es) \<le> length dates"
        "api_calls s1 = api_calls s0 + int (length dates)"
        "new_games s1 = new_games s0 + int (length (upsert_calls es)) - int (failed_upserts w (snd ex) es)"
        "errors s1 = errors s0 + int (failed_upserts w (snd ex) es)"
        "failed_upserts w (snd ex) es \<le> length (upsert_calls es)"
        "total_dates s1 = total_dates s0" "existing_games s1 = existing_games s0"
        "bs_player_key s1 = bs_player_key s0" "bs_player_name s1 = bs_player_name s0"
      by blast
    have r: "backfill_player w pk pn start_date end_date skip t = (Inr s1, t @ (es0 @ es))"
      using bp False lp es(1) es0(1) by simp
    have fu: "failed_upserts w t (es0 @ es) = failed_upserts w (snd ex) es"
      using es0 by (simp add: failed_upserts_append)
    show ?thesis
      apply (rule exI[of _ s1], rule exI[of _ "es0 @ es"])
      unfolding fu fetch_calls_append upsert_calls_append roster_calls_append
      using r es es0 by (simp add: s0_def)
  qed
qed

lemmas run_defs = backfill_player_def generated_dates_upto get_existing_dates_def
  backfill_step_def get_player_stats_by_date_def get_player_stats_by_date_try_def
  stats_dict_of_def coerce_def save_game_log_def Let_def

section \<open>The claims about backfill_player\<close>

text \<open>
  C6. The dates that \<open>backfill_player\<close> generates from \<open>start\<close> to \<open>end\<close> are the consecutive
  calendar days from \<open>start\<close> to the earlier of \<open>end\<close> and the day of \<open>now\<close>, each one
  formatted: \<open>min(end, now) - start + 1\<close> of them. When \<open>end\<close> is not after \<open>now\<close> the first
  is \<open>start\<close> and the last is \<open>end\<close>; when \<open>end\<close> is after \<open>now\<close> the last is the day of
  \<open>now\<close>; when \<open>start\<close> is after the clamped end the list is empty.
\<close>

theorem date_range_generation:
  "generated_dates w s e today = map (strftime w) [s..min e (ordinal today)]
   \<and> length (generated_dates w s e today) = nat (min e (ordinal today) - s + 1)
   \<and> (\<forall>i < length (generated_dates w s e today).
         generated_dates w s e today ! i = strftime w (s + int i))
   \<and> (\<not> dt_less today \<lparr>ordinal = e, tod = 0\<rparr> \<and> s \<le> e \<longrightarrow>
         length (generated_dates w s e today) = nat (e - s + 1)
         \<and> hd (generated_dates w s e today) = strftime w s
         \<and> last (generated_dates w s e today) = strftime w e)
   \<and> (dt_less today \<lparr>ordinal = e, tod = 0\<rparr> \<and> s \<le> ordinal today \<longrightarrow>
         length (generated_dates w s e today) = nat (ordinal today - s + 1)
         \<and> hd (generated_dates w s e today) = strftime w s
         \<and> last (generated_dates w s e today) = strftime w (ordinal today))
   \<and> (min e (ordinal today) < s \<longrightarrow> generated_dates w s e today = [])"
proof -
  let ?m = "min e (ordinal today)"
  have g: "generated_dates w s e today = map (strftime w) [s..?m]"
    by (rule generated_dates_upto)
  have len: "length (generated_dates w s e today) = nat (?m - s + 1)"
    by (simp add: g)
  have nth: "\<forall>i < length (generated_dates w s e today).
               generated_dates w s e today ! i = strftime w (s + int i)"
  proof (intro allI impI)
    fix i
    assume "i < length (generated_dates w s e today)"
    then have i: "i < length [s..?m]" by (simp add: g)
    then have "s + int i \<le> ?m" by simp linarith
    then show "generated_dates w s e today ! i = strftime w (s + int i)"
      using i by (simp add: g del: length_upto)
  qed
  have ends: "hd (generated_dates w s e today) = strftime w s
              \<and> last (generated_dates w s e today) = strftime w ?m" if "s \<le> ?m"
  proof -
    have ne: "[s..?m] \<noteq> []" using that by (metis upto_Nil not_less)
    have h: "hd [s..?m] = s" by (subst upto_rec1[OF that]) simp
    have l: "last [s..?m] = ?m" by (subst upto_rec2[OF that]) simp
    show ?thesis
      unfolding g hd_map[OF ne] last_map[OF ne] h l by simp
  qed
  have unclamped: "?m = e" if "\<not> dt_less today \<lparr>ordinal = e, tod = 0\<rparr>"
    using that by (auto simp: dt_less_def)
  have clamped: "?m = ordinal today" if "dt_less today \<lparr>ordinal = e, tod = 0\<rparr>"
    using that by (auto simp: dt_less_def)
  have c1: "\<not> dt_less today \<lparr>ordinal = e, tod = 0\<rparr> \<and> s \<le> e \<longrightarrow>
         length (generated_dates w s e today) = nat (e - s + 1)
         \<and> hd (generated_dates w s e today) = strftime w s
         \<and> last (generated_dates w s e today) = strftime w e"
    using len ends unclamped by metis
  have c2: "dt_less today \<lparr>ordinal = e, tod = 0\<rparr> \<and> s \<le> ordinal today \<longrightarrow>
         length (generated_dates w s e today) = nat (ordinal today - s + 1)
         \<and> hd (generated_dates w s e today) = strftime w s
         \<and> last (generated_dates w s e today) = strftime w (ordinal today)"
    using len ends clamped by metis
  have c3: "?m < s \<longrightarrow> generated_dates w s e today = []"
    by (simp add: g)
  show ?thesis using g len nth c1 c2 c3 by blast
qed

theorem date_range_generation_witness:
  "\<not> dt_less \<lparr>ordinal = 739183, tod = 43200000000\<rparr> \<lparr>ordinal = 739183, tod = 0\<rparr>
   \<and> generated_dates scenario 739181 739183 \<lparr>ordinal = 739183, tod = 43200000000\<rparr>
        = [''2024-10-22'', ''2024-10-23'', ''2024-10-24'']
   \<and> dt_less \<lparr>ordinal = 739183, tod = 43200000000\<rparr> \<lparr>ordinal = 739419, tod = 0\<rparr>
   \<and> generated_dates scenario 739181 739419 \<lparr>ordinal = 739183, tod = 43200000000\<rparr>
        = [''2024-10-22'', ''2024-10-23'', ''2024-10-24'']
   \<and> last (generated_dates scenario 739181 739419 \<lparr>ordinal = 739183, tod = 43200000000\<rparr>)
        = strftime scenario 739183
   \<and> min 739419 739182 < (739183 :: int)
   \<and> generated_dates scenario 739183 739419 \<lparr>ordinal = 739182, tod = 0\<rparr> = []"
  using date_range_generation[of scenario 739181 739183 "\<lparr>ordinal = 739183, tod = 43200000000\<rparr>"]
        date_range_generation[of scenario 739181 739419 "\<lparr>ordinal = 739183, tod = 43200000000\<rparr>"]
        date_range_generation[of scenario 739183 739419 "\<lparr>ordinal = 739182, tod = 0\<rparr>"]
  by (simp add: dt_less_def scenario_def)

text \<open>
  C10. A run of \<open>backfill_player\<close> on well-formed dates makes one remote call for each
  date left after the filter, in their order and whatever the call returns, and returns
  a BatchStats with \<open>total_dates\<close> the number of these dates and \<open>api_calls = total_dates\<close>;
  \<open>new_games + errors \<le> api_calls\<close>, where \<open>new_games + errors\<close> is the number of rows handed
  to the store and \<open>errors\<close> the number of those the store refused; with no date left,
  \<open>api_calls = new_games = errors = 0\<close> and no call is made.
\<close>

theorem batch_stats_invariant:
  assumes "strptime w start_date = Some s" and "strptime w end_date = Some e"
    and "dates = (if skip
                  then filter (\<lambda>d. d \<notin> fst (get_existing_dates w pk t))
                         (generated_dates w s e (datetime_now w t))
                  else generated_dates w s e (datetime_now w t))"
  shows "\<exists>st es. backfill_player w pk pn start_date end_date skip t = (Inr st, t @ es)
            \<and> total_dates st = int (length dates)
            \<and> fetch_calls es = map (Pair pk) dates
            \<and> api_calls st = total_dates st
            \<and> api_calls st = int (length (fetch_calls es))
            \<and> 0 \<le> new_games st \<and> 0 \<le> errors st
            \<and> new_games st + errors st \<le> api_calls st
            \<and> new_games st + errors st = int (length (upsert_calls es))
            \<and> errors st = int (failed_upserts w t es)
            \<and> (dates = [] \<longrightarrow>
                  api_calls st = 0 \<and> new_games st = 0 \<and> errors st = 0
                  \<and> fetch_calls es = [] \<and> upsert_calls es = [])
            \<and> (total_dates st = 0 \<longrightarrow>
                  api_calls st = 0 \<and> new_games st = 0 \<and> errors st = 0
                  \<and> fetch_calls es = [] \<and> upsert_calls es = [])"
proof -
  have D: "dates = filter (\<lambda>d. d \<notin> (if skip then fst (get_existing_dates w pk t) else {}))
                     (generated_dates w s e (datetime_now w t))"
    using assms(3) by simp
  from backfill_player_effect[OF assms(1,2) refl D, where pn = pn]
  obtain st es where
    r: "backfill_player w pk pn start_date end_date skip t = (Inr st, t @ es)"
    and f: "fetch_calls es = map (Pair pk) dates"
    and u: "length (upsert_calls es) \<le> length dates"
    and fu: "failed_upserts w t es \<le> length (upsert_calls es)"
    and td: "total_dates st = int (length dates)"
    and ac: "api_calls st = int (length dates)"
    and ng: "new_games st = int (length (upsert_calls es)) - int (failed_upserts w t es)"
    and er: "errors st = int (failed_upserts w t es)"
    by blast
  have "api_calls st = int (length (fetch_calls es))" using f ac by simp
  moreover have "dates = [] \<longrightarrow> fetch_calls es = [] \<and> upsert_calls es = []"
    using f u by auto
  moreover have "total_dates st = 0 \<longrightarrow> dates = []"
    using td by simp
  ultimately show ?thesis using r f u fu td ac ng er
    by (intro exI[of _ st] exI[of _ es]) auto
qed

theorem batch_stats_invariant_witness:
  "strptime scenario ''2024-10-22'' = Some 739181
   \<and> strptime scenario ''2024-10-24'' = Some 739183
   \<and> strptime scenario ''2025-06-17'' = Some 739419
   \<and> [''2024-10-22'', ''2024-10-23'', ''2024-10-24'']
       = (if True
          then filter (\<lambda>d. d \<notin> fst (get_existing_dates scenario ''nba.p.123'' []))
                 (generated_dates scenario 739181 739183 (datetime_now scenario []))
          else generated_dates scenario 739181 739183 (datetime_now scenario []))
   \<and> fst (backfill_player scenario ''nba.p.123'' ''Player One'' ''2024-10-22'' ''2024-10-24''
            True [])
       = Inr \<lparr>bs_player_key = ''nba.p.123'', bs_player_name = ''Player One'',
              total_dates = 3, existing_games = 0, new_games = 1, api_calls = 3, errors = 0\<rparr>
   \<and> (\<exists>st es. backfill_player scenario ''nba.p.123'' ''Player One'' ''2024-10-22''
                 ''2024-10-24'' True [] = (Inr st, es)
            \<and> total_dates st = 3
            \<and> fetch_calls es = [(''nba.p.123'', ''2024-10-22''), (''nba.p.123'', ''2024-10-23''),
                                (''nba.p.123'', ''2024-10-24'')]
            \<and> api_calls st = total_dates st
            \<and> new_games st + errors st \<le> api_calls st
            \<and> new_games st + errors st = int (length (upsert_calls es))
            \<and> errors st = int (failed_upserts scenario [] es))
   \<and> [] = (if True
            then filter (\<lambda>d. d \<notin> fst (get_existing_dates scenario ''nba.p.123'' []))
                   (generated_dates scenario 739419 739419 (datetime_now scenario []))
            else generated_dates scenario 739419 739419 (datetime_now scenario []))
   \<and> (\<exists>st es. backfill_player scenario ''nba.p.123'' ''Player One'' ''2025-06-17''
                 ''2025-06-17'' True [] = (Inr st, es)
            \<and> total_dates st = 0 \<and> api_calls st = 0 \<and> new_games st = 0 \<and> errors st = 0
            \<and> fetch_calls es = [] \<and> upsert_calls es = [])"
proof -
  have h1: "strptime scenario ''2024-10-22'' = Some 739181" by (simp add: scenario_def)
  have h2: "strptime scenario ''2024-10-24'' = Some 739183" by (simp add: scenario_def)
  have h3: "strptime scenario ''2025-06-17'' = Some 739419" by (simp add: scenario_def)
  have d: "[''2024-10-22'', ''2024-10-23'', ''2024-10-24'']
       = (if True
          then filter (\<lambda>d. d \<notin> fst (get_existing_dates scenario ''nba.p.123'' []))
                 (generated_dates scenario 739181 739183 (datetime_now scenario []))
          else generated_dates scenario 739181 739183 (datetime_now scenario []))"
    by (simp add: generated_dates_upto get_existing_dates_def scenario_def)
  have d0: "[] = (if True
            then filter (\<lambda>d. d \<notin> fst (get_existing_dates scenario ''nba.p.123'' []))
                   (generated_dates scenario 739419 739419 (datetime_now scenario []))
            else generated_dates scenario 739419 739419 (datetime_now scenario []))"
    by (simp add: generated_dates_upto get_existing_dates_def scenario_def)
  have v: "fst (backfill_player scenario ''nba.p.123'' ''Player One'' ''2024-10-22''
                 ''2024-10-24'' True [])
       = Inr \<lparr>bs_player_key = ''nba.p.123'', bs_player_name = ''Player One'',
              total_dates = 3, existing_games = 0, new_games = 1, api_calls = 3, errors = 0\<rparr>"
    by (simp add: run_defs scenario_def)
  have r: "\<exists>st es. backfill_player scenario ''nba.p.123'' ''Player One'' ''2024-10-22''
                 ''2024-10-24'' True [] = (Inr st, es)
            \<and> total_dates st = 3
            \<and> fetch_calls es = [(''nba.p.123'', ''2024-10-22''), (''nba.p.123'', ''2024-10-23''),
                                (''nba.p.123'', ''2024-10-24'')]
            \<and> api_calls st = total_dates st
            \<and> new_games st + errors st \<le> api_calls st
            \<and> new_games st + errors st = int (length (upsert_calls es))
            \<and> errors st = int (failed_upserts scenario [] es)"
    using batch_stats_invariant[OF h1 h2 d, where pn = "''Player One''"]
    by auto
  have r0: "\<exists>st es. backfill_player scenario ''nba.p.123'' ''Player One'' ''2025-06-17''
                 ''2025-06-17'' True [] = (Inr st, es)
            \<and> total_dates st = 0 \<and> api_calls st = 0 \<and> new_games st = 0 \<and> errors st = 0
            \<and> fetch_calls es = [] \<and> upsert_calls es = []"
    using batch_stats_invariant[OF h3 h3 d0, where pn = "''Player One''"]
    by auto
  show ?thesis using h1 h2 h3 d v r d0 r0 by (intro conjI)
qed

text \<open>
  C4. With \<open>skip_existing = True\<close> and \<open>E\<close> the set that \<open>get_existing_dates\<close> returns, the
  dates passed to the stats fetcher are the generated dates without the members of \<open>E\<close>,
  in the order in which they were generated, each with the player's key.
\<close>

theorem skip_existing_fetch_sequence:
  assumes "strptime w start_date = Some s" and "strptime w end_date = Some e"
    and "fst (get_existing_dates w pk t) = E"
  shows "\<exists>st es. backfill_player w pk pn start_date end_date True t = (Inr st, t @ es)
            \<and> fetch_calls es =
                map (Pair pk) (filter (\<lambda>d. d \<notin> E) (generated_dates w s e (datetime_now w t)))"
proof -
  have E: "E = (if True then fst (get_existing_dates w pk t) else {})"
    using assms(3) by simp
  from backfill_player_effect[OF assms(1,2) E refl, where pn = pn]
  show ?thesis by blast
qed

theorem skip_existing_fetch_sequence_witness:
  "strptime scenario_rerun ''2024-10-22'' = Some 739181
   \<and> strptime scenario_rerun ''2024-10-24'' = Some 739183
   \<and> fst (get_existing_dates scenario_rerun ''nba.p.123'' []) = {''2024-10-22''}
   \<and> generated_dates scenario_rerun 739181 739183 (datetime_now scenario_rerun [])
       = [''2024-10-22'', ''2024-10-23'', ''2024-10-24'']
   \<and> (\<exists>st es. backfill_player scenario_rerun ''nba.p.123'' ''Player One'' ''2024-10-22''
                 ''2024-10-24'' True [] = (Inr st, [] @ es)
            \<and> fetch_calls es =
                [(''nba.p.123'', ''2024-10-23''), (''nba.p.123'', ''2024-10-24'')])"
proof -
  have h1: "strptime scenario_rerun ''2024-10-22'' = Some 739181"
    by (simp add: scenario_rerun_def scenario_def)
  have h2: "strptime scenario_rerun ''2024-10-24'' = Some 739183"
    by (simp add: scenario_rerun_def scenario_def)
  have h3: "fst (get_existing_dates scenario_rerun ''nba.p.123'' []) = {''2024-10-22''}"
    by (simp add: get_existing_dates_def scenario_rerun_def scenario_def)
  have g: "generated_dates scenario_rerun 739181 739183 (datetime_now scenario_rerun [])
             = [''2024-10-22'', ''2024-10-23'', ''2024-10-24'']"
    by (simp add: generated_dates_upto scenario_rerun_def scenario_def)
  show ?thesis
    using h1 h2 h3 g
      skip_existing_fetch_sequence[OF h1 h2 h3, where pn = "''Player One''"]
    by simp
qed

lemma get_existing_dates_finite: "finite (fst (get_existing_dates w pk t))"
  by (simp add: get_existing_dates_def split: sum.splits)

text \<open>
  C5, as amended. With \<open>skip_existing = True\<close>, \<open>existing_games\<close> is the number of distinct
  dates that the store holds for the player, the size of the set \<open>E\<close> that
  \<open>get_existing_dates\<close> returns, whether or not those dates lie in the window. It is the
  number of distinct generated dates that the filter removes if and only if every date
  of \<open>E\<close> is a generated date; if moreover the generated dates are pairwise distinct, it
  is the number of generated dates removed. \<open>total_dates\<close> is the number of generated
  dates left after the filter.
\<close>

theorem existing_games_is_store_size:
  assumes "strptime w start_date = Some s" and "strptime w end_date = Some e"
    and "fst (get_existing_dates w pk t) = E"
    and "generated_dates w s e (datetime_now w t) = gen"
  shows "\<exists>st t'. backfill_player w pk pn start_date end_date True t = (Inr st, t')
            \<and> existing_games st = int (card E)
            \<and> total_dates st = int (length (filter (\<lambda>d. d \<notin> E) gen))
            \<and> total_dates st = int (length gen) - int (length (filter (\<lambda>d. d \<in> E) gen))
            \<and> (existing_games st = int (card (set (filter (\<lambda>d. d \<in> E) gen)))
                 \<longleftrightarrow> E \<subseteq> set gen)
            \<and> (E \<subseteq> set gen \<and> distinct gen \<longrightarrow>
                  existing_games st = int (length (filter (\<lambda>d. d \<in> E) gen)))"
proof -
  have E: "E = (if True then fst (get_existing_dates w pk t) else {})"
    using assms(3) by simp
  have fin: "finite E" using assms(3) get_existing_dates_finite[of w pk t] by simp
  have D: "filter (\<lambda>d. d \<notin> E) gen
             = filter (\<lambda>d. d \<notin> E) (generated_dates w s e (datetime_now w t))"
    using assms(4) by simp
  from backfill_player_effect[OF assms(1,2) E D, where pn = pn]
  obtain st es where
    r: "backfill_player w pk pn start_date end_date True t = (Inr st, t @ es)"
    and td: "total_dates st = int (length (filter (\<lambda>d. d \<notin> E) gen))"
    and eg: "existing_games st = int (card E)"
    by blast
  have split: "length gen = length (filter (\<lambda>d. d \<in> E) gen) + length (filter (\<lambda>d. d \<notin> E) gen)"
    using sum_length_filter_compl[of "\<lambda>d. d \<in> E" gen] by simp
  have inter: "set (filter (\<lambda>d. d \<in> E) gen) = E \<inter> set gen" by auto
  have iff: "card E = card (set (filter (\<lambda>d. d \<in> E) gen)) \<longleftrightarrow> E \<subseteq> set gen"
  proof
    assume c: "card E = card (set (filter (\<lambda>d. d \<in> E) gen))"
    have "E \<inter> set gen = E"
      using fin c unfolding inter by (intro card_subset_eq) simp_all
    then show "E \<subseteq> set gen" by blast
  next
    assume "E \<subseteq> set gen"
    then have "E \<inter> set gen = E" by blast
    then show "card E = card (set (filter (\<lambda>d. d \<in> E) gen))" unfolding inter by simp
  qed
  have removed: "card E = length (filter (\<lambda>d. d \<in> E) gen)" if "E \<subseteq> set gen" "distinct gen"
  proof -
    have "length (filter (\<lambda>d. d \<in> E) gen) = card ({d. d \<in> E} \<inter> set gen)"
      using that(2) by (rule distinct_length_filter)
    also have "{d. d \<in> E} \<inter> set gen = E" using that(1) by auto
    finally show ?thesis by simp
  qed
  have iff': "existing_games st = int (card (set (filter (\<lambda>d. d \<in> E) gen)))
                \<longleftrightarrow> E \<subseteq> set gen"
    using iff eg by simp
  have td2: "total_dates st = int (length gen) - int (length (filter (\<lambda>d. d \<in> E) gen))"
    using td split by simp
  have rem': "E \<subseteq> set gen \<and> distinct gen \<longrightarrow>
                  existing_games st = int (length (filter (\<lambda>d. d \<in> E) gen))"
    using removed eg by simp
  show ?thesis
    using r td eg td2 iff' rem' by (intro exI[of _ st] exI[of _ "t @ es"] conjI)
qed

theorem existing_games_is_store_size_witness:
  "strptime scenario_rerun ''2024-10-22'' = Some 739181
   \<and> strptime scenario_rerun ''2024-10-24'' = Some 739183
   \<and> fst (get_existing_dates scenario_rerun ''nba.p.123'' []) = {''2024-10-22''}
   \<and> generated_dates scenario_rerun 739181 739183 (datetime_now scenario_rerun [])
       = [''2024-10-22'', ''2024-10-23'', ''2024-10-24'']
   \<and> {''2024-10-22''} \<subseteq> set [''2024-10-22'', ''2024-10-23'', ''2024-10-24'']
   \<and> distinct [''2024-10-22'', ''2024-10-23'', ''2024-10-24'']
   \<and> (\<exists>st t'. backfill_player scenario_rerun ''nba.p.123'' ''Player One'' ''2024-10-22''
                 ''2024-10-24'' True [] = (Inr st, t')
            \<and> existing_games st = 1 \<and> total_dates st = 2)"
proof -
  have h1: "strptime scenario_rerun ''2024-10-22'' = Some 739181"
    by (simp add: scenario_rerun_def scenario_def)
  have h2: "strptime scenario_rerun ''2024-10-24'' = Some 739183"
    by (simp add: scenario_rerun_def scenario_def)
  have h3: "fst (get_existing_dates scenario_rerun ''nba.p.123'' []) = {''2024-10-22''}"
    by (simp add: get_existing_dates_def scenario_rerun_def scenario_def)
  have h4: "generated_dates scenario_rerun 739181 739183 (datetime_now scenario_rerun [])
             = [''2024-10-22'', ''2024-10-23'', ''2024-10-24'']"
    by (simp add: generated_dates_upto scenario_rerun_def scenario_def)
  have s: "{''2024-10-22''} \<subseteq> set [''2024-10-22'', ''2024-10-23'', ''2024-10-24'']" by simp
  have dist: "distinct [''2024-10-22'', ''2024-10-23'', ''2024-10-24'']" by simp
  have r: "\<exists>st t'. backfill_player scenario_rerun ''nba.p.123'' ''Player One'' ''2024-10-22''
                 ''2024-10-24'' True [] = (Inr st, t')
            \<and> existing_games st = 1 \<and> total_dates st = 2"
    using existing_games_is_store_size[OF h1 h2 h3 h4, where pn = "''Player One''"]
    by auto
  show ?thesis using h1 h2 h3 h4 s dist r by (intro conjI)
qed

text \<open>
  C5, as stated, fails: the store holds three dates for the player, one of them in the
  window of three generated dates. One generated date is removed and two are left, but
  \<open>existing_games\<close> is 3.
\<close>

theorem existing_games_counterexample:
  "fst (get_existing_dates scenario_history ''nba.p.123'' [])
     = {''2023-11-01'', ''2023-11-03'', ''2024-10-22''}
   \<and> generated_dates scenario_history 739181 739183 (datetime_now scenario_history [])
       = [''2024-10-22'', ''2024-10-23'', ''2024-10-24'']
   \<and> fst (backfill_player scenario_history ''nba.p.123'' ''Player One'' ''2024-10-22''
            ''2024-10-24'' True [])
       = Inr \<lparr>bs_player_key = ''nba.p.123'', bs_player_name = ''Player One'',
              total_dates = 2, existing_games = 3, new_games = 0, api_calls = 2, errors = 0\<rparr>
   \<and> (3 :: int) \<noteq> 3 - 2"
  by (simp add: run_defs scenario_history_def scenario_def insert_commute)

section \<open>The claims about get_existing_dates and backfill_season\<close>

text \<open>
  C7. When the query for the stored dates raises, \<open>get_existing_dates\<close> returns the empty
  set and prints the diagnostic, and a run of \<open>backfill_player\<close> goes on: it returns a
  BatchStats with \<open>existing_games = 0\<close> and fetches every generated date.
\<close>

theorem existing_dates_fail_open:
  assumes "supabase_select w t pk = Inl err"
  shows "get_existing_dates w pk t = ({}, t @ [SupabaseSelect pk, Print (MsgQueryFailed err)])
         \<and> (strptime w start_date = Some s \<and> strptime w end_date = Some e \<longrightarrow>
              (\<exists>st es. backfill_player w pk pn start_date end_date True t
                          = (Inr st, t @ [SupabaseSelect pk, Print (MsgQueryFailed err)] @ es)
                   \<and> existing_games st = 0
                   \<and> fetch_calls es
                       = map (Pair pk) (generated_dates w s e (datetime_now w t))))"
proof -
  have g: "get_existing_dates w pk t = ({}, t @ [SupabaseSelect pk, Print (MsgQueryFailed err)])"
    using assms by (simp add: get_existing_dates_def)
  have run: "\<exists>st es. backfill_player w pk pn start_date end_date True t
                          = (Inr st, t @ [SupabaseSelect pk, Print (MsgQueryFailed err)] @ es)
                   \<and> existing_games st = 0
                   \<and> fetch_calls es
                       = map (Pair pk) (generated_dates w s e (datetime_now w t))"
    if sd: "strptime w start_date = Some s" and ed: "strptime w end_date = Some e"
  proof -
    let ?gen = "generated_dates w s e (datetime_now w t)"
    let ?t1 = "t @ [SupabaseSelect pk, Print (MsgQueryFailed err)]"
    let ?s0 = "\<lparr>bs_player_key = pk, bs_player_name = pn, total_dates = int (length ?gen),
                 existing_games = 0, new_games = 0, api_calls = 0, errors = 0\<rparr>"
    have bp: "backfill_player w pk pn start_date end_date True t =
                (if length ?gen = 0 then (Inr ?s0, ?t1)
                 else (case backfill_loop w pk pn ?gen (?s0, ?t1) of (s1, t2) \<Rightarrow> (Inr s1, t2)))"
      by (simp add: backfill_player_def sd ed g Let_def)
    show ?thesis
    proof (cases "?gen = []")
      case True
      then show ?thesis using bp by (intro exI[of _ ?s0] exI[of _ "[]"]) simp
    next
      case False
      obtain s1 t2 where lp: "backfill_loop w pk pn ?gen (?s0, ?t1) = (s1, t2)"
        by (cases "backfill_loop w pk pn ?gen (?s0, ?t1)")
      from backfill_loop_effect[OF lp] obtain es where
        es: "t2 = ?t1 @ es" "fetch_calls es = map (Pair pk) ?gen"
            "existing_games s1 = existing_games ?s0"
        by blast
      show ?thesis using bp False lp es by (intro exI[of _ s1] exI[of _ es]) simp
    qed
  qed
  show ?thesis using g run by blast
qed

theorem existing_dates_fail_open_witness:
  "supabase_select scenario_store_down [] ''nba.p.123'' = Inl (OtherError ''connection refused'')
   \<and> strptime scenario_store_down ''2024-10-22'' = Some 739181
   \<and> strptime scenario_store_down ''2024-10-24'' = Some 739183
   \<and> get_existing_dates scenario_store_down ''nba.p.123'' []
       = ({}, [SupabaseSelect ''nba.p.123'',
               Print (MsgQueryFailed (OtherError ''connection refused''))])
   \<and> (\<exists>st es. backfill_player scenario_store_down ''nba.p.123'' ''Player One'' ''2024-10-22''
                 ''2024-10-24'' True []
                 = (Inr st, [SupabaseSelect ''nba.p.123'',
                             Print (MsgQueryFailed (OtherError ''connection refused''))] @ es)
            \<and> existing_games st = 0
            \<and> fetch_calls es = [(''nba.p.123'', ''2024-10-22''), (''nba.p.123'', ''2024-10-23''),
                                (''nba.p.123'', ''2024-10-24'')])"
proof -
  have h0: "supabase_select scenario_store_down [] ''nba.p.123''
              = Inl (OtherError ''connection refused'')"
    by (simp add: scenario_store_down_def scenario_def)
  have h1: "strptime scenario_store_down ''2024-10-22'' = Some 739181"
    by (simp add: scenario_store_down_def scenario_def)
  have h2: "strptime scenario_store_down ''2024-10-24'' = Some 739183"
    by (simp add: scenario_store_down_def scenario_def)
  have g: "generated_dates scenario_store_down 739181 739183 (datetime_now scenario_store_down [])
             = [''2024-10-22'', ''2024-10-23'', ''2024-10-24'']"
    by (simp add: generated_dates_upto scenario_store_down_def scenario_def)
  show ?thesis
    using h0 h1 h2 g
      existing_dates_fail_open[OF h0, where start_date = "''2024-10-22''" and s = 739181
        and end_date = "''2024-10-24''" and e = 739183 and pn = "''Player One''"]
    by simp
qed

text \<open>
  C8. A season run with a label that is not in the season table prints the error and
  returns, without raising: the one event of the run is that diagnostic, so there is no
  roster call, no call to the stats fetcher, no row handed to the store and no player
  processed.
\<close>

theorem unknown_season_aborts:
  assumes "season_key \<notin> fst ` set SEASONS"
  shows "\<exists>es. backfill_season w season_key max_players t = (Inr (), t @ es)
            \<and> es = [Print (MsgInvalidSeason season_key)]
            \<and> roster_calls es = 0 \<and> upsert_calls es = [] \<and> fetch_calls es = []"
proof -
  have "map_of SEASONS season_key = None"
    using assms by (simp add: map_of_eq_None_iff)
  then show ?thesis by (simp add: backfill_season_def)
qed

theorem unknown_season_aborts_witness:
  "''2022-23'' \<notin> fst ` set SEASONS
   \<and> backfill_season scenario ''2022-23'' None [] = (Inr (), [Print (MsgInvalidSeason ''2022-23'')])
   \<and> roster_calls [Print (MsgInvalidSeason ''2022-23'')] = 0
   \<and> upsert_calls [Print (MsgInvalidSeason ''2022-23'')] = []"
proof -
  have h: "''2022-23'' \<notin> fst ` set SEASONS" by (simp add: SEASONS_def)
  show ?thesis
    using h unknown_season_aborts[OF h, of scenario None "[]"] by simp
qed

section \<open>The claims about get_player_stats_by_date\<close>

lemma parse_stats_append:
  "parse_stats w (xs @ ys) d =
     (case parse_stats w xs d of Inl e \<Rightarrow> Inl e | Inr d' \<Rightarrow> parse_stats w ys d')"
  by (induction xs arbitrary: d) (simp_all split: stat_entry.splits option.splits)

lemma parse_stats_ok_iff:
  "(\<exists>sd. parse_stats w es d = Inr sd) \<longleftrightarrow> BadStat \<notin> set es"
  by (induction es arbitrary: d) (auto split: stat_entry.splits option.splits)

lemma parse_stats_distinct:
  "parse_stats w xs d = Inr sd \<Longrightarrow> distinct (map fst d) \<Longrightarrow> distinct (map fst sd)"
  by (induction xs arbitrary: d)
     (auto simp: distinct_update split: stat_entry.splits option.splits)

lemma parse_stats_absent:
  "parse_stats w es d = Inr sd \<Longrightarrow> (\<forall>v. Stat k v \<in> set es \<longrightarrow> coerce w v = None)
     \<Longrightarrow> map_of sd k = map_of d k"
proof (induction es arbitrary: d)
  case Nil
  then show ?case by simp
next
  case (Cons x es)
  show ?case
  proof (cases x)
    case NoStat
    then show ?thesis using Cons by simp
  next
    case BadStat
    then show ?thesis using Cons.prems by simp
  next
    case (Stat k' v')
    show ?thesis
    proof (cases "coerce w v'")
      case None
      then show ?thesis using Cons Stat by simp
    next
      case (Some n)
      then have "k' \<noteq> k" using Cons.prems(2) Stat by auto
      moreover have "parse_stats w es (AList.update k' n d) = Inr sd"
        using Cons.prems(1) Stat Some by simp
      ultimately show ?thesis using Cons.IH[of "AList.update k' n d"] Cons.prems(2)
        by (simp add: update_conv')
    qed
  qed
qed

lemma parse_stats_stored:
  assumes "parse_stats w (xs @ Stat k v # ys) d = Inr sd" and "coerce w v = Some n"
    and "\<forall>v'. Stat k v' \<in> set ys \<longrightarrow> coerce w v' = None"
  shows "map_of sd k = Some n"
proof -
  from assms(1) obtain d1 where d1: "parse_stats w xs d = Inr d1"
    and rest: "parse_stats w (Stat k v # ys) d1 = Inr sd"
    by (auto simp: parse_stats_append split: sum.splits)
  have "parse_stats w ys (AList.update k n d1) = Inr sd"
    using rest assms(2) by simp
  from parse_stats_absent[OF this assms(3)] show ?thesis
    by (simp add: update_conv')
qed

lemma parse_stats_dropped:
  "coerce w v = None \<Longrightarrow>
     parse_stats w (xs @ Stat k v # ys) d = parse_stats w (xs @ ys) d"
  by (simp add: parse_stats_append split: sum.splits)

lemma fetcher_result:
  "fst (get_player_stats_by_date w pk d t) =
     (case yahoo_get_player_stats_by_date w t pk d of
        Inr (PlayerStats ps) \<Rightarrow>
          (case stats_dict_of w ps of
             Inl e \<Rightarrow> None
           | Inr sd \<Rightarrow>
               (if list_ex num_pos (map snd sd)
                then Some \<lparr>date = d, stats = sd, minutes_played = map_of sd ''3'',
                           has_game = True\<rparr>
                else None))
      | _ \<Rightarrow> None)"
  by (simp add: get_player_stats_by_date_def get_player_stats_by_date_try_def Let_def
           split: sum.splits stats_obj.splits)

lemma fetcher_some:
  assumes "fst (get_player_stats_by_date w pk d t) = Some g"
  shows "\<exists>ps. yahoo_get_player_stats_by_date w t pk d = Inr (PlayerStats ps)
           \<and> stats_dict_of w ps = Inr (stats g)
           \<and> g = \<lparr>date = d, stats = stats g, minutes_played = map_of (stats g) ''3'',
                  has_game = True\<rparr>"
  using assms unfolding fetcher_result
  by (auto split: sum.splits stats_obj.splits if_splits)

text \<open>
  C1, as amended. The stats fetcher returns a record exactly when the remote call returns
  a payload, the loop over its entries runs to the end (no entry raises when its id or
  value is read), and at least one value of the coerced mapping is strictly greater than
  zero. The record carries \<open>has_game = True\<close>, the date of the call, the coerced mapping,
  and as \<open>minutes_played\<close> the value of the mapping at \<open>"3"\<close>, unset when the mapping has
  no such key. When no coerced value is positive, or when an entry raises, nothing is
  returned.
\<close>

theorem fetcher_record_iff_parsed_positive:
  "((\<exists>g. fst (get_player_stats_by_date w pk d t) = Some g)
      \<longleftrightarrow> (\<exists>ps sd. yahoo_get_player_stats_by_date w t pk d = Inr (PlayerStats ps)
                    \<and> stats_dict_of w ps = Inr sd
                    \<and> (\<exists>v \<in> snd ` set sd. num_pos v)))
   \<and> ((\<exists>sd. stats_dict_of w ps' = Inr sd) \<longleftrightarrow> (\<forall>es. ps' = Some es \<longrightarrow> BadStat \<notin> set es))
   \<and> (yahoo_get_player_stats_by_date w t pk d = Inr (PlayerStats ps')
        \<and> stats_dict_of w ps' = Inl err \<longrightarrow>
          fst (get_player_stats_by_date w pk d t) = None)
   \<and> (\<forall>g. fst (get_player_stats_by_date w pk d t) = Some g \<longrightarrow>
          has_game g \<and> date g = d
          \<and> (\<exists>ps. yahoo_get_player_stats_by_date w t pk d = Inr (PlayerStats ps)
                  \<and> stats_dict_of w ps = Inr (stats g))
          \<and> minutes_played g = map_of (stats g) ''3''
          \<and> (''3'' \<notin> fst ` set (stats g) \<longrightarrow> minutes_played g = None)
          \<and> (\<forall>v. (''3'', v) \<in> set (stats g) \<longrightarrow> minutes_played g = Some v))"
proof -
  let ?r = "yahoo_get_player_stats_by_date w t pk d"
  let ?f = "fst (get_player_stats_by_date w pk d t)"
  have ex: "list_ex num_pos (map snd al) \<longleftrightarrow> (\<exists>v \<in> snd ` set al. num_pos v)"
    for al :: "(string \<times> num) list"
    by (auto simp: list_ex_iff)
  have iff: "(\<exists>g. ?f = Some g)
      \<longleftrightarrow> (\<exists>ps sd. ?r = Inr (PlayerStats ps) \<and> stats_dict_of w ps = Inr sd
                    \<and> (\<exists>v \<in> snd ` set sd. num_pos v))"
    unfolding fetcher_result ex by (auto split: sum.splits stats_obj.splits)
  have parsed: "(\<exists>sd. stats_dict_of w ps' = Inr sd)
                  \<longleftrightarrow> (\<forall>es. ps' = Some es \<longrightarrow> BadStat \<notin> set es)"
    by (cases ps') (simp_all add: stats_dict_of_def parse_stats_ok_iff)
  have raised: "?r = Inr (PlayerStats ps') \<and> stats_dict_of w ps' = Inl err \<longrightarrow> ?f = None"
    unfolding fetcher_result by simp
  have content: "has_game g \<and> date g = d
          \<and> (\<exists>ps. ?r = Inr (PlayerStats ps) \<and> stats_dict_of w ps = Inr (stats g))
          \<and> minutes_played g = map_of (stats g) ''3''
          \<and> (''3'' \<notin> fst ` set (stats g) \<longrightarrow> minutes_played g = None)
          \<and> (\<forall>v. (''3'', v) \<in> set (stats g) \<longrightarrow> minutes_played g = Some v)"
    if g: "?f = Some g" for g
  proof -
    from fetcher_some[OF g] obtain ps where ps: "?r = Inr (PlayerStats ps)"
      and sd: "stats_dict_of w ps = Inr (stats g)"
      and gv: "g = \<lparr>date = d, stats = stats g, minutes_played = map_of (stats g) ''3'',
                     has_game = True\<rparr>"
      by blast
    have dist: "distinct (map fst (stats g))"
      using sd parse_stats_distinct[of w _ "[]" "stats g"]
      by (cases ps) (auto simp: stats_dict_of_def)
    have m: "minutes_played g = map_of (stats g) ''3''" by (subst gv) simp
    have hg: "has_game g" "date g = d" by (subst gv, simp)+
    have none: "''3'' \<notin> fst ` set (stats g) \<longrightarrow> minutes_played g = None"
      unfolding m by (simp add: map_of_eq_None_iff)
    have some: "\<forall>v. (''3'', v) \<in> set (stats g) \<longrightarrow> minutes_played g = Some v"
      unfolding m using dist by simp
    show ?thesis using ps sd m hg none some by blast
  qed
  show ?thesis using iff parsed raised content by blast
qed

theorem fetcher_record_iff_parsed_positive_witness:
  "yahoo_get_player_stats_by_date scenario [] ''nba.p.123'' ''2024-10-22''
     = Inr (PlayerStats (Some [Stat ''3'' (Str ''34''), Stat ''9'' (Str ''DNP''),
                               Stat ''12'' (Str ''10''), Stat ''5'' (Str ''12.5''), NoStat,
                               Stat ''7'' (Str ''8'')]))
   \<and> stats_dict_of scenario (Some [Stat ''3'' (Str ''34''), Stat ''9'' (Str ''DNP''),
                                  Stat ''12'' (Str ''10''), Stat ''5'' (Str ''12.5''), NoStat,
                                  Stat ''7'' (Str ''8'')])
       = Inr [(''3'', IntV 34), (''12'', IntV 10), (''5'', FloatV (Finite (25 / 2))),
              (''7'', IntV 8)]
   \<and> num_pos (IntV 34)
   \<and> fst (get_player_stats_by_date scenario ''nba.p.123'' ''2024-10-22'' [])
       = Some \<lparr>date = ''2024-10-22'',
               stats = [(''3'', IntV 34), (''12'', IntV 10), (''5'', FloatV (Finite (25 / 2))),
                        (''7'', IntV 8)],
               minutes_played = Some (IntV 34), has_game = True\<rparr>
   \<and> fst (get_player_stats_by_date scenario ''nba.p.123'' ''2024-10-24'' []) = None
   \<and> yahoo_get_player_stats_by_date scenario_malformed [] ''nba.p.123'' ''2024-10-22''
       = Inr (PlayerStats (Some [Stat ''3'' (Str ''34''), BadStat, Stat ''7'' (Str ''8'')]))
   \<and> stats_dict_of scenario_malformed (Some [Stat ''3'' (Str ''34''), BadStat,
                                            Stat ''7'' (Str ''8'')])
       = Inl AttributeError
   \<and> fst (get_player_stats_by_date scenario_malformed ''nba.p.123'' ''2024-10-22'' []) = None"
proof -
  let ?es = "[Stat ''3'' (Str ''34''), Stat ''9'' (Str ''DNP''), Stat ''12'' (Str ''10''),
              Stat ''5'' (Str ''12.5''), NoStat, Stat ''7'' (Str ''8'')]"
  let ?bad = "[Stat ''3'' (Str ''34''), BadStat, Stat ''7'' (Str ''8'')]"
  have a1: "yahoo_get_player_stats_by_date scenario [] ''nba.p.123'' ''2024-10-22''
              = Inr (PlayerStats (Some ?es))"
    by (simp add: scenario_def)
  have a2: "stats_dict_of scenario (Some ?es)
              = Inr [(''3'', IntV 34), (''12'', IntV 10), (''5'', FloatV (Finite (25 / 2))),
                     (''7'', IntV 8)]"
    by (simp add: stats_dict_of_def coerce_def scenario_def)
  have a3: "num_pos (IntV 34)" by simp
  have a4: "fst (get_player_stats_by_date scenario ''nba.p.123'' ''2024-10-22'' [])
       = Some \<lparr>date = ''2024-10-22'',
               stats = [(''3'', IntV 34), (''12'', IntV 10), (''5'', FloatV (Finite (25 / 2))),
                        (''7'', IntV 8)],
               minutes_played = Some (IntV 34), has_game = True\<rparr>"
    by (simp add: run_defs scenario_def)
  have a5: "fst (get_player_stats_by_date scenario ''nba.p.123'' ''2024-10-24'' []) = None"
    by (simp add: run_defs scenario_def)
  have b1: "yahoo_get_player_stats_by_date scenario_malformed [] ''nba.p.123'' ''2024-10-22''
              = Inr (PlayerStats (Some ?bad))"
    by (simp add: scenario_malformed_def scenario_def)
  have b2: "stats_dict_of scenario_malformed (Some ?bad) = Inl AttributeError"
    by (simp add: stats_dict_of_def coerce_def scenario_malformed_def scenario_def)
  have b3: "fst (get_player_stats_by_date scenario_malformed ''nba.p.123'' ''2024-10-22'' [])
              = None"
    using fetcher_record_iff_parsed_positive[of scenario_malformed "''nba.p.123''"
            "''2024-10-22''" "[]" "Some ?bad" AttributeError] b1 b2
    by blast
  show ?thesis using a1 a2 a3 a4 a5 b1 b2 b3 by (intro conjI)
qed

text \<open>
  C1, as stated, fails: the payload holds the entry \<open>"3"\<close> with the value \<open>"34"\<close>, which is
  coerced to 34, and then an entry whose value cannot be read. When the loop reaches
  that entry the mapping holds a value greater than zero, and the fetcher returns
  nothing.
\<close>

theorem fetcher_record_counterexample:
  "yahoo_get_player_stats_by_date scenario_malformed [] ''nba.p.123'' ''2024-10-22''
     = Inr (PlayerStats (Some [Stat ''3'' (Str ''34''), BadStat, Stat ''7'' (Str ''8'')]))
   \<and> coerce scenario_malformed (Str ''34'') = Some (IntV 34)
   \<and> parse_stats scenario_malformed [Stat ''3'' (Str ''34'')] [] = Inr [(''3'', IntV 34)]
   \<and> num_pos (IntV 34)
   \<and> get_player_stats_by_date scenario_malformed ''nba.p.123'' ''2024-10-22'' []
       = (None, [YahooPlayerStats ''nba.p.123'' ''2024-10-22''])"
  by (simp add: run_defs scenario_malformed_def scenario_def)

text \<open>
  C2. The coercion of a raw value parses a text with a decimal point as a float and any
  other text as an integer. An entry whose value fails the coercion leaves the mapping
  of the fetcher as it is, and the entries after it are processed as if it were absent:
  in the mapping of a returned record, a stat id all of whose entries fail is absent,
  and an entry that is coerced is stored under its stat id, whatever entries fail
  around it, unless a later entry of the same id is coerced. The fetcher prints nothing:
  its one event is the remote call.
\<close>

theorem coercion_policy:
  "coerce w (Str s) = (if CHR ''.'' \<in> set s then map_option FloatV (py_float w s)
                       else map_option IntV (py_int w s))
   \<and> coerce w NonStr = None
   \<and> (coerce w v = None \<longrightarrow>
        stats_dict_of w (Some (xs @ Stat k v # ys)) = stats_dict_of w (Some (xs @ ys)))
   \<and> (stats_dict_of w (Some es) = Inr sd \<longrightarrow>
        (\<forall>k'. (\<forall>v'. Stat k' v' \<in> set es \<longrightarrow> coerce w v' = None) \<longrightarrow> map_of sd k' = None)
        \<and> (\<forall>xs' k' v' ys' n.
              es = xs' @ Stat k' v' # ys' \<and> coerce w v' = Some n
              \<and> (\<forall>v''. Stat k' v'' \<in> set ys' \<longrightarrow> coerce w v'' = None)
              \<longrightarrow> map_of sd k' = Some n))
   \<and> (yahoo_get_player_stats_by_date w t pk d = Inr (PlayerStats (Some es))
        \<and> fst (get_player_stats_by_date w pk d t) = Some g \<longrightarrow>
          stats_dict_of w (Some es) = Inr (stats g))
   \<and> snd (get_player_stats_by_date w pk d t) = t @ [YahooPlayerStats pk d]"
proof -
  have c1: "coerce w (Str s) = (if CHR ''.'' \<in> set s then map_option FloatV (py_float w s)
                       else map_option IntV (py_int w s))"
    by (simp add: coerce_def split: option.splits)
  have c2: "coerce w NonStr = None" by (simp add: coerce_def)
  have c3: "coerce w v = None \<longrightarrow>
        stats_dict_of w (Some (xs @ Stat k v # ys)) = stats_dict_of w (Some (xs @ ys))"
    by (simp add: stats_dict_of_def parse_stats_dropped)
  have c4: "stats_dict_of w (Some es) = Inr sd \<longrightarrow>
        (\<forall>k'. (\<forall>v'. Stat k' v' \<in> set es \<longrightarrow> coerce w v' = None) \<longrightarrow> map_of sd k' = None)
        \<and> (\<forall>xs' k' v' ys' n.
              es = xs' @ Stat k' v' # ys' \<and> coerce w v' = Some n
              \<and> (\<forall>v''. Stat k' v'' \<in> set ys' \<longrightarrow> coerce w v'' = None)
              \<longrightarrow> map_of sd k' = Some n)"
  proof (intro impI conjI allI)
    fix k'
    assume "stats_dict_of w (Some es) = Inr sd"
      and "\<forall>v'. Stat k' v' \<in> set es \<longrightarrow> coerce w v' = None"
    then show "map_of sd k' = None"
      using parse_stats_absent[of w es "[]" sd k'] by (simp add: stats_dict_of_def)
  next
    fix xs' k' v' ys' n
    assume sd: "stats_dict_of w (Some es) = Inr sd"
      and h: "es = xs' @ Stat k' v' # ys' \<and> coerce w v' = Some n
              \<and> (\<forall>v''. Stat k' v'' \<in> set ys' \<longrightarrow> coerce w v'' = None)"
    then have "parse_stats w (xs' @ Stat k' v' # ys') [] = Inr sd"
      by (simp add: stats_dict_of_def)
    then show "map_of sd k' = Some n"
      using h parse_stats_stored[of w xs' k' v' ys' "[]" sd n] by blast
  qed
  have c5: "yahoo_get_player_stats_by_date w t pk d = Inr (PlayerStats (Some es))
        \<and> fst (get_player_stats_by_date w pk d t) = Some g \<longrightarrow>
          stats_dict_of w (Some es) = Inr (stats g)"
    using fetcher_some[of w pk d t g] by auto
  have c6: "snd (get_player_stats_by_date w pk d t) = t @ [YahooPlayerStats pk d]"
    by (rule fetcher_trace)
  show ?thesis using c1 c2 c3 c4 c5 c6 by (intro conjI)
qed

theorem coercion_policy_witness:
  "coerce scenario (Str ''12.5'') = Some (FloatV (Finite (25 / 2)))
   \<and> coerce scenario (Str ''8'') = Some (IntV 8)
   \<and> coerce scenario (Str ''DNP'') = None
   \<and> yahoo_get_player_stats_by_date scenario [] ''nba.p.123'' ''2024-10-22''
       = Inr (PlayerStats (Some ([Stat ''3'' (Str ''34''), Stat ''9'' (Str ''DNP''),
                                  Stat ''12'' (Str ''10''), Stat ''5'' (Str ''12.5''), NoStat]
                                 @ Stat ''7'' (Str ''8'') # [])))
   \<and> fst (get_player_stats_by_date scenario ''nba.p.123'' ''2024-10-22'' [])
       = Some \<lparr>date = ''2024-10-22'',
               stats = [(''3'', IntV 34), (''12'', IntV 10), (''5'', FloatV (Finite (25 / 2))),
                        (''7'', IntV 8)],
               minutes_played = Some (IntV 34), has_game = True\<rparr>
   \<and> stats_dict_of scenario (Some ([Stat ''3'' (Str ''34''), Stat ''9'' (Str ''DNP''),
                                   Stat ''12'' (Str ''10''), Stat ''5'' (Str ''12.5''), NoStat]
                                  @ Stat ''7'' (Str ''8'') # []))
       = Inr [(''3'', IntV 34), (''12'', IntV 10), (''5'', FloatV (Finite (25 / 2))),
              (''7'', IntV 8)]
   \<and> map_of [(''3'', IntV 34), (''12'', IntV 10), (''5'', FloatV (Finite (25 / 2))),
             (''7'', IntV 8)] ''9'' = None
   \<and> map_of [(''3'', IntV 34), (''12'', IntV 10), (''5'', FloatV (Finite (25 / 2))),
             (''7'', IntV 8)] ''7'' = Some (IntV 8)
   \<and> stats_dict_of scenario (Some ([Stat ''3'' (Str ''34'')] @ Stat ''9'' (Str ''DNP'')
                                     # [Stat ''12'' (Str ''10'')]))
       = stats_dict_of scenario (Some ([Stat ''3'' (Str ''34'')] @ [Stat ''12'' (Str ''10'')]))"
proof -
  let ?xs = "[Stat ''3'' (Str ''34''), Stat ''9'' (Str ''DNP''), Stat ''12'' (Str ''10''),
              Stat ''5'' (Str ''12.5''), NoStat]"
  let ?es = "?xs @ Stat ''7'' (Str ''8'') # []"
  let ?sd = "[(''3'', IntV 34), (''12'', IntV 10), (''5'', FloatV (Finite (25 / 2))),
              (''7'', IntV 8)]"
  let ?g = "\<lparr>date = ''2024-10-22'', stats = ?sd, minutes_played = Some (IntV 34),
             has_game = True\<rparr>"
  have f: "coerce scenario (Str ''12.5'') = Some (FloatV (Finite (25 / 2)))"
    by (simp add: coerce_def scenario_def)
  have i: "coerce scenario (Str ''8'') = Some (IntV 8)" by (simp add: coerce_def scenario_def)
  have n: "coerce scenario (Str ''DNP'') = None" by (simp add: coerce_def scenario_def)
  have r: "yahoo_get_player_stats_by_date scenario [] ''nba.p.123'' ''2024-10-22''
             = Inr (PlayerStats (Some ?es))"
    by (simp add: scenario_def)
  have g: "fst (get_player_stats_by_date scenario ''nba.p.123'' ''2024-10-22'' []) = Some ?g"
    by (simp add: run_defs scenario_def)
  note pol = coercion_policy[of scenario "''DNP''" "Str ''DNP''" "[Stat ''3'' (Str ''34'')]"
               "''9''" "[Stat ''12'' (Str ''10'')]" ?es ?sd "[]" "''nba.p.123''"
               "''2024-10-22''" ?g]
  have sd: "stats_dict_of scenario (Some ?es) = Inr ?sd"
    using pol r g by simp
  have absent: "\<forall>v'. Stat ''9'' v' \<in> set ?es \<longrightarrow> coerce scenario v' = None"
    using n by auto
  have m9: "map_of ?sd ''9'' = None"
    using pol sd absent by blast
  have last7: "\<forall>v''. Stat ''7'' v'' \<in> set [] \<longrightarrow> coerce scenario v'' = None" by simp
  have m7: "map_of ?sd ''7'' = Some (IntV 8)"
    using pol sd i last7 by blast
  have dr: "stats_dict_of scenario (Some ([Stat ''3'' (Str ''34'')] @ Stat ''9'' (Str ''DNP'')
                                     # [Stat ''12'' (Str ''10'')]))
       = stats_dict_of scenario (Some ([Stat ''3'' (Str ''34'')] @ [Stat ''12'' (Str ''10'')]))"
    using pol n by blast
  show ?thesis using f i n r g sd m9 m7 dr by (intro conjI)
qed

text \<open>
  C3. The stats fetcher returns to its caller on every input. When the remote call
  raises, the body of the \<open>try\<close> raises and the handler returns \<open>None\<close>; when the remote
  call returns a falsy object, an object without \<open>player_stats\<close> or a \<open>player_stats\<close>
  without \<open>stats\<close>, the fetcher returns \<open>None\<close> as well.
\<close>

theorem fetcher_absorbs_failures:
  "(yahoo_get_player_stats_by_date w t pk d = Inl err \<longrightarrow>
       get_player_stats_by_date_try w pk d t = Inl err
       \<and> get_player_stats_by_date w pk d t = (None, t @ [YahooPlayerStats pk d]))
   \<and> (yahoo_get_player_stats_by_date w t pk d \<in> {Inr Falsy, Inr NoPlayerStats,
                                                  Inr (PlayerStats None)} \<longrightarrow>
       get_player_stats_by_date w pk d t = (None, t @ [YahooPlayerStats pk d]))
   \<and> (\<exists>r. get_player_stats_by_date w pk d t = (r, t @ [YahooPlayerStats pk d]))"
proof -
  have a: "yahoo_get_player_stats_by_date w t pk d = Inl err \<longrightarrow>
       get_player_stats_by_date_try w pk d t = Inl err
       \<and> get_player_stats_by_date w pk d t = (None, t @ [YahooPlayerStats pk d])"
    by (simp add: get_player_stats_by_date_def get_player_stats_by_date_try_def)
  have b: "yahoo_get_player_stats_by_date w t pk d \<in> {Inr Falsy, Inr NoPlayerStats,
                                                  Inr (PlayerStats None)} \<longrightarrow>
       get_player_stats_by_date w pk d t = (None, t @ [YahooPlayerStats pk d])"
    by (auto simp: get_player_stats_by_date_def get_player_stats_by_date_try_def
          stats_dict_of_def)
  have c: "\<exists>r. get_player_stats_by_date w pk d t = (r, t @ [YahooPlayerStats pk d])"
    by (simp add: get_player_stats_by_date_def split: sum.splits)
  show ?thesis using a b c by blast
qed

theorem fetcher_absorbs_failures_witness:
  "yahoo_get_player_stats_by_date scenario [] ''nba.p.123'' ''2024-10-23''
     = Inl (OtherError ''no data'')
   \<and> get_player_stats_by_date_try scenario ''nba.p.123'' ''2024-10-23'' []
       = Inl (OtherError ''no data'')
   \<and> get_player_stats_by_date scenario ''nba.p.123'' ''2024-10-23'' []
       = (None, [YahooPlayerStats ''nba.p.123'' ''2024-10-23''])"
proof -
  have h: "yahoo_get_player_stats_by_date scenario [] ''nba.p.123'' ''2024-10-23''
             = Inl (OtherError ''no data'')"
    by (simp add: scenario_def)
  show ?thesis
    using h fetcher_absorbs_failures[of scenario "[]" "''nba.p.123''" "''2024-10-23''"
               "OtherError ''no data''"]
    by simp
qed

section \<open>The totals of a season\<close>

lemma season_step_effect:
  assumes sd: "strptime w (fst info) = Some s" and ed: "strptime w (snd info) = Some e"
  shows "\<exists>r t2 t'.
           backfill_player w (player_key p) (player_name p) (fst info) (snd info) True
             (t @ [Print (MsgPlayerHeader i n (player_name p) (player_key p)), Print MsgDashes])
             = (Inr r, t2)
           \<and> api_calls r = total_dates r
           \<and> season_step w info n i p tot t =
               (Inr (tot\<lparr>processed_players := processed_players tot + 1,
                         total_new_games := total_new_games tot + new_games r,
                         total_api_calls := total_api_calls tot + api_calls r,
                         total_errors := total_errors tot + errors r\<rparr>), t')"
proof -
  let ?t1 = "t @ [Print (MsgPlayerHeader i n (player_name p) (player_key p)), Print MsgDashes]"
  from backfill_player_effect[OF sd ed refl refl, where skip = True and pk = "player_key p"
         and pn = "player_name p" and t = ?t1]
  obtain r es where
    r: "backfill_player w (player_key p) (player_name p) (fst info) (snd info) True ?t1
          = (Inr r, ?t1 @ es)"
    and a: "api_calls r = total_dates r"
    by auto
  show ?thesis
    using r a by (simp add: season_step_def Let_def)
qed

lemma season_loop_effect:
  assumes sd: "strptime w (fst info) = Some s" and ed: "strptime w (snd info) = Some e"
  shows "\<exists>tot' t'. season_loop w info n i ps tot t = (Inr tot', t')
           \<and> length (season_runs w info n i ps tot t) = length ps
           \<and> (\<forall>r \<in> set (season_runs w info n i ps tot t). api_calls r = total_dates r)
           \<and> total_players tot' = total_players tot
           \<and> processed_players tot' = processed_players tot + int (length ps)
           \<and> total_new_games tot' =
               total_new_games tot + sum_list (map new_games (season_runs w info n i ps tot t))
           \<and> total_api_calls tot' =
               total_api_calls tot + sum_list (map api_calls (season_runs w info n i ps tot t))
           \<and> total_errors tot' =
               total_errors tot + sum_list (map errors (season_runs w info n i ps tot t))"
proof (induction ps arbitrary: i tot t)
  case Nil
  then show ?case by simp
next
  case (Cons p ps)
  from season_step_effect[OF sd ed, of p t i n tot] obtain r t2 t1 where
    bp: "backfill_player w (player_key p) (player_name p) (fst info) (snd info) True
           (t @ [Print (MsgPlayerHeader i n (player_name p) (player_key p)), Print MsgDashes])
           = (Inr r, t2)"
    and a: "api_calls r = total_dates r"
    and st: "season_step w info n i p tot t =
               (Inr (tot\<lparr>processed_players := processed_players tot + 1,
                         total_new_games := total_new_games tot + new_games r,
                         total_api_calls := total_api_calls tot + api_calls r,
                         total_errors := total_errors tot + errors r\<rparr>), t1)"
    by blast
  let ?tot1 = "tot\<lparr>processed_players := processed_players tot + 1,
                   total_new_games := total_new_games tot + new_games r,
                   total_api_calls := total_api_calls tot + api_calls r,
                   total_errors := total_errors tot + errors r\<rparr>"
  let ?rest = "season_runs w info n (Suc i) ps ?tot1 t1"
  from Cons.IH[of "Suc i" ?tot1 t1] obtain tot' t' where
    lp: "season_loop w info n (Suc i) ps ?tot1 t1 = (Inr tot', t')"
    and len: "length ?rest = length ps"
    and api: "\<forall>r \<in> set ?rest. api_calls r = total_dates r"
    and tp: "total_players tot' = total_players ?tot1"
    and pp: "processed_players tot' = processed_players ?tot1 + int (length ps)"
    and ng: "total_new_games tot' = total_new_games ?tot1 + sum_list (map new_games ?rest)"
    and ac: "total_api_calls tot' = total_api_calls ?tot1 + sum_list (map api_calls ?rest)"
    and er: "total_errors tot' = total_errors ?tot1 + sum_list (map errors ?rest)"
    by blast
  have runs: "season_runs w info n i (p # ps) tot t = r # ?rest"
    using bp st by simp
  have loop: "season_loop w info n i (p # ps) tot t = (Inr tot', t')"
    using st lp by simp
  show ?case
    unfolding runs loop
    using len api a tp pp ng ac er by (intro exI[of _ tot'] exI[of _ t']) simp
qed

text \<open>
  C9, as amended. A season run over a roster that is not empty reports as SeasonTotals
  the number of players of the (truncated) list, as total and as processed, and the sums
  over all these players of \<open>new_games\<close>, \<open>api_calls\<close> and \<open>errors\<close> of the BatchStats of
  each one. The sum of \<open>total_dates\<close> is the reported sum of \<open>api_calls\<close>;
  \<open>existing_games\<close> is not part of the totals.
\<close>

theorem season_totals_sum:
  assumes "map_of SEASONS season_key = Some season_info"
    and "strptime w (fst season_info) = Some s"
    and "strptime w (snd season_info) = Some e"
    and "get_league_players w
           (t @ [Print MsgRule, Print (MsgSeasonStart season_key),
                 Print (MsgDateRange (fst season_info) (snd season_info)), Print MsgRule])
         = (players0, t2)"
    and "players0 \<noteq> []"
    and "players = (case max_players of None \<Rightarrow> players0
                    | Some m \<Rightarrow> if m \<noteq> 0 then py_slice_to players0 m else players0)"
    and "t3 = (case max_players of None \<Rightarrow> t2
               | Some m \<Rightarrow> if m \<noteq> 0 then t2 @ [Print (MsgLimit m)] else t2)"
    and "runs = season_runs w season_info (length players) 1 players
                  \<lparr>total_players = int (length players), processed_players = 0,
                   total_new_games = 0, total_api_calls = 0, total_errors = 0\<rparr> t3"
  shows "\<exists>t4. backfill_season w season_key max_players t =
                (Inr (), t4 @ final_report
                   \<lparr>total_players = int (length players),
                    processed_players = int (length players),
                    total_new_games = sum_list (map new_games runs),
                    total_api_calls = sum_list (map api_calls runs),
                    total_errors = sum_list (map errors runs)\<rparr>)
              \<and> length runs = length players
              \<and> sum_list (map total_dates runs) = sum_list (map api_calls runs)"
proof -
  let ?tot0 = "\<lparr>total_players = int (length players), processed_players = 0,
                 total_new_games = 0, total_api_calls = 0, total_errors = 0\<rparr>"
  from season_loop_effect[OF assms(2,3), of "length players" 1 players ?tot0 t3]
  obtain tot' t4 where
    lp: "season_loop w season_info (length players) 1 players ?tot0 t3 = (Inr tot', t4)"
    and len: "length runs = length players"
    and api: "\<forall>r \<in> set runs. api_calls r = total_dates r"
    and tp: "total_players tot' = int (length players)"
    and pp: "processed_players tot' = int (length players)"
    and ng: "total_new_games tot' = sum_list (map new_games runs)"
    and ac: "total_api_calls tot' = sum_list (map api_calls runs)"
    and er: "total_errors tot' = sum_list (map errors runs)"
    unfolding assms(8) by auto
  have tot': "tot' = \<lparr>total_players = int (length players),
                      processed_players = int (length players),
                      total_new_games = sum_list (map new_games runs),
                      total_api_calls = sum_list (map api_calls runs),
                      total_errors = sum_list (map errors runs)\<rparr>"
    using tp pp ng ac er by (cases tot') simp
  have pair: "(case max_players of None \<Rightarrow> (players0, t2)
               | Some m \<Rightarrow> if m \<noteq> 0 then (py_slice_to players0 m, t2 @ [Print (MsgLimit m)])
                           else (players0, t2)) = (players, t3)"
    using assms(6,7) by (simp split: option.splits)
  have run: "backfill_season w season_key max_players t = (Inr (), t4 @ final_report tot')"
    using assms(1,4,5) lp
    by (simp add: backfill_season_def Let_def pair)
  have sums: "sum_list (map total_dates runs) = sum_list (map api_calls runs)"
    using api by (induction runs) simp_all
  show ?thesis using run len sums unfolding tot' by blast
qed

lemmas season_defs = backfill_season_def SEASONS_def get_league_players_def player_of_def
  season_step_def final_report_def

theorem season_totals_sum_witness:
  "map_of SEASONS ''2024-25'' = Some (''2024-10-22'', ''2025-06-17'')
   \<and> strptime scenario ''2024-10-22'' = Some 739181
   \<and> strptime scenario ''2025-06-17'' = Some 739419
   \<and> get_league_players scenario
        [Print MsgRule, Print (MsgSeasonStart ''2024-25''),
         Print (MsgDateRange ''2024-10-22'' ''2025-06-17''), Print MsgRule]
       = ([\<lparr>player_key = ''nba.p.123'', player_name = ''Player One'', team = ''LAL'',
            positions = [''PG'']\<rparr>],
          [Print MsgRule, Print (MsgSeasonStart ''2024-25''),
           Print (MsgDateRange ''2024-10-22'' ''2025-06-17''), Print MsgRule,
           Print MsgFetchingPlayers, YahooLeagueInfo, YahooLeaguePlayers,
           Print (MsgFoundPlayers 1)])
   \<and> season_runs scenario (''2024-10-22'', ''2025-06-17'') 1 1
        [\<lparr>player_key = ''nba.p.123'', player_name = ''Player One'', team = ''LAL'',
          positions = [''PG'']\<rparr>]
        \<lparr>total_players = 1, processed_players = 0, total_new_games = 0, total_api_calls = 0,
         total_errors = 0\<rparr>
        [Print MsgRule, Print (MsgSeasonStart ''2024-25''),
         Print (MsgDateRange ''2024-10-22'' ''2025-06-17''), Print MsgRule,
         Print MsgFetchingPlayers, YahooLeagueInfo, YahooLeaguePlayers,
         Print (MsgFoundPlayers 1)]
       = [\<lparr>bs_player_key = ''nba.p.123'', bs_player_name = ''Player One'', total_dates = 3,
           existing_games = 0, new_games = 1, api_calls = 3, errors = 0\<rparr>]
   \<and> (\<exists>t4. backfill_season scenario ''2024-25'' None [] =
              (Inr (), t4 @ final_report
                 \<lparr>total_players = 1, processed_players = 1, total_new_games = 1,
                  total_api_calls = 3, total_errors = 0\<rparr>))"
proof -
  let ?info = "(''2024-10-22'', ''2025-06-17'')"
  let ?p = "\<lparr>player_key = ''nba.p.123'', player_name = ''Player One'', team = ''LAL'',
             positions = [''PG'']\<rparr>"
  let ?t2 = "[Print MsgRule, Print (MsgSeasonStart ''2024-25''),
              Print (MsgDateRange ''2024-10-22'' ''2025-06-17''), Print MsgRule,
              Print MsgFetchingPlayers, YahooLeagueInfo, YahooLeaguePlayers,
              Print (MsgFoundPlayers 1)]"
  let ?runs = "[\<lparr>bs_player_key = ''nba.p.123'', bs_player_name = ''Player One'',
                 total_dates = 3, existing_games = 0, new_games = 1, api_calls = 3,
                 errors = 0\<rparr>]"
  have h1: "map_of SEASONS ''2024-25'' = Some ?info" by (simp add: SEASONS_def)
  have h2: "strptime scenario (fst ?info) = Some 739181" by (simp add: scenario_def)
  have h3: "strptime scenario (snd ?info) = Some 739419" by (simp add: scenario_def)
  have h4: "get_league_players scenario
              ([] @ [Print MsgRule, Print (MsgSeasonStart ''2024-25''),
                     Print (MsgDateRange (fst ?info) (snd ?info)), Print MsgRule])
            = ([?p], ?t2)"
    by (simp add: get_league_players_def player_of_def scenario_def)
  have h5: "[?p] \<noteq> []" by simp
  have h6: "[?p] = (case None :: int option of None \<Rightarrow> [?p]
                    | Some m \<Rightarrow> if m \<noteq> 0 then py_slice_to [?p] m else [?p])"
    by simp
  have h7: "?t2 = (case None :: int option of None \<Rightarrow> ?t2
                   | Some m \<Rightarrow> if m \<noteq> 0 then ?t2 @ [Print (MsgLimit m)] else ?t2)"
    by simp
  have h8: "?runs = season_runs scenario ?info (length [?p]) 1 [?p]
                      \<lparr>total_players = int (length [?p]), processed_players = 0,
                       total_new_games = 0, total_api_calls = 0, total_errors = 0\<rparr> ?t2"
    by (simp add: run_defs season_step_def scenario_def)
  have c: "\<exists>t4. backfill_season scenario ''2024-25'' None [] =
              (Inr (), t4 @ final_report
                 \<lparr>total_players = 1, processed_players = 1, total_new_games = 1,
                  total_api_calls = 3, total_errors = 0\<rparr>)"
    using season_totals_sum[OF h1 h2 h3 h4 h5 h6 h7 h8] by simp
  have a2: "strptime scenario ''2024-10-22'' = Some 739181" using h2 by simp
  have a3: "strptime scenario ''2025-06-17'' = Some 739419" using h3 by simp
  have a4: "get_league_players scenario
              [Print MsgRule, Print (MsgSeasonStart ''2024-25''),
               Print (MsgDateRange ''2024-10-22'' ''2025-06-17''), Print MsgRule]
            = ([?p], ?t2)"
    using h4 by simp
  have a8: "season_runs scenario ?info 1 1 [?p]
              \<lparr>total_players = 1, processed_players = 0, total_new_games = 0,
               total_api_calls = 0, total_errors = 0\<rparr> ?t2 = ?runs"
    using h8[symmetric] by simp
  show ?thesis
    using h1 a2 a3 a4 a8 c by (intro conjI)
qed

text \<open>
  C9, as stated, fails for the counter \<open>existing_games\<close>: in a season run over one player
  with three stored dates, the BatchStats of the player has \<open>existing_games = 3\<close>, and the
  reported totals are 1 of 1 players, 0 new games, 2 calls and 0 errors.
\<close>

theorem season_totals_counterexample:
  "map existing_games
     (season_runs scenario_history (''2024-10-22'', ''2025-06-17'') 1 1
        [\<lparr>player_key = ''nba.p.123'', player_name = ''Player One'', team = ''LAL'',
          positions = [''PG'']\<rparr>]
        \<lparr>total_players = 1, processed_players = 0, total_new_games = 0, total_api_calls = 0,
         total_errors = 0\<rparr>
        [Print MsgRule, Print (MsgSeasonStart ''2024-25''),
         Print (MsgDateRange ''2024-10-22'' ''2025-06-17''), Print MsgRule,
         Print MsgFetchingPlayers, YahooLeagueInfo, YahooLeaguePlayers,
         Print (MsgFoundPlayers 1)])
     = [3]
   \<and> backfill_season scenario_history ''2024-25'' None [] =
       (Inr (),
        [Print MsgRule, Print (MsgSeasonStart ''2024-25''),
         Print (MsgDateRange ''2024-10-22'' ''2025-06-17''), Print MsgRule,
         Print MsgFetchingPlayers, YahooLeagueInfo, YahooLeaguePlayers,
         Print (MsgFoundPlayers 1),
         Print (MsgPlayerHeader 1 1 ''Player One'' ''nba.p.123''), Print MsgDashes,
         SupabaseSelect ''nba.p.123'',
         YahooPlayerStats ''nba.p.123'' ''2024-10-23'', Sleep 200,
         YahooPlayerStats ''nba.p.123'' ''2024-10-24'', Sleep 200,
         Print (MsgExisting 3), Print (MsgNew 0), Print (MsgApiCalls 2)]
        @ final_report \<lparr>total_players = 1, processed_players = 1, total_new_games = 0,
                        total_api_calls = 2, total_errors = 0\<rparr>)
   \<and> (3 :: int) \<notin> {1, 1, 0, 2, 0}"
  by (simp add: run_defs season_defs scenario_history_def scenario_def)

end
